theory Spec2Isabelle
  imports Main "HOL-Library.Word"
begin

unbundle bit_operations_syntax

section \<open>Machine integers\<close>

text \<open>
  The C++ types \<open>int\<close> and \<open>unsigned\<close> are 32 bits wide on every platform the external is
  built for. Both are modelled as \<open>32 word\<close>: arithmetic and shifts wrap around modulo
  \<open>2 ^ 32\<close> (what C++20 prescribes for \<open>int\<close> as well), \<open>unat\<close> reads a word as
  \<open>unsigned\<close>, \<open>sint\<close> reads it as \<open>int\<close>, and a conversion between the two types keeps the
  bits. Comparisons of \<open>int\<close> values are the signed ones (\<open><s\<close>, \<open>\<le>s\<close>).
\<close>

type_synonym cint = "32 word"
type_synonym cuint = "32 word"

text \<open>\<open>std::max(a, b)\<close> on \<open>int\<close>: \<^verbatim>\<open>(a < b) ? b : a\<close>.\<close>

definition std_max :: "cint \<Rightarrow> cint \<Rightarrow> cint" where
  "std_max a b = (if a <s b then b else a)"


section \<open>Frontend: \<open>power_ceil\<close> and the buffer size\<close>

text \<open>
  \<^verbatim>\<open>
  unsigned power_ceil(unsigned x) {
    if (x <= 1) return 1;
    int power = 2;
    x--;
    while (x >>= 1) power <<= 1;
    return power;
  }
  \<close>
  The loop shifts first and tests the shifted value. It stops because a nonzero word gets
  smaller when shifted right.
\<close>

lemma drop_bit_1_less:
  fixes x :: "32 word"
  assumes "drop_bit 1 x \<noteq> 0"
  shows "unat (drop_bit 1 x) < unat x"
proof -
  have half: "unat (drop_bit 1 x) = unat x div 2"
    unfolding unat_drop_bit_eq by (simp add: drop_bit_eq_div)
  from assms have "unat (drop_bit 1 x) \<noteq> 0"
    by (simp add: unat_eq_0)
  with half show ?thesis by linarith
qed

function power_ceil_loop :: "cuint \<Rightarrow> cint \<Rightarrow> cint" where
  "power_ceil_loop x pw =
     (let x' = drop_bit 1 x in
      if x' \<noteq> 0 then power_ceil_loop x' (push_bit 1 pw) else pw)"
  by pat_completeness auto
termination
  by (relation "measure (\<lambda>(x, pw). unat x)") (use drop_bit_1_less in simp_all)

declare power_ceil_loop.simps [simp del]

definition power_ceil :: "cuint \<Rightarrow> cuint" where
  "power_ceil x = (if x \<le> 1 then 1 else power_ceil_loop (x - 1) 2)"

text \<open>
  The constructor of \<open>nn_msg_tilde\<close> settles the buffer size once the model is loaded:
  \<^verbatim>\<open>
  if (!m_buffer_size) {
    // NO THREAD MODE
    m_buffer_size = m_higher_ratio;
  } else if (m_buffer_size < m_higher_ratio) {
    m_buffer_size = m_higher_ratio;
    cerr << "buffer size too small, switching to " << m_buffer_size << endl;
  } else {
    m_buffer_size = power_ceil(m_buffer_size);
  }
  \<close>
  \<open>m_buffer_size\<close> and \<open>m_higher_ratio\<close> are \<open>int\<close> members. The block is the spec's
  \<open>resolve_buffer_size\<close>; it returns the new \<open>m_buffer_size\<close> and what was written to the
  error console. A console line is kept as a value: the first constructor is the warning of
  this block, the second the message of the audio callback below, each with the numbers it
  prints.
\<close>

datatype console_line = Buffer_size_too_small cint | Vector_size_larger nat cint

definition resolve_buffer_size :: "cint \<Rightarrow> cint \<Rightarrow> cint \<times> console_line list" where
  "resolve_buffer_size m_buffer_size m_higher_ratio =
     (if m_buffer_size = 0 then (m_higher_ratio, [])
      else if m_buffer_size <s m_higher_ratio
        then (m_higher_ratio, [Buffer_size_too_small m_higher_ratio])
      else (power_ceil m_buffer_size, []))"


section \<open>The TorchScript module, as the backend sees it\<close>

text \<open>
  \<open>Backend_MSG\<close> talks to a \<open>torch::jit::Module\<close>. The library is outside the repository;
  the model keeps of it what the backend's calls observe.

  A tensor is its flattened content and its element kind: integers (what the exported
  \<open>*_params\<close> buffers hold) or single-precision floats (what \<open>perform\<close> sends and
  receives). Floating-point values are kept abstract, as a type parameter \<open>'f\<close>.
  An \<open>IValue\<close> is a tagged union; the conversions \<open>toBool\<close>, \<open>toInt\<close>, \<open>toList\<close>, ... throw
  on any other tag.
\<close>

datatype device = CPU | CUDA | MPS

datatype 'f tensor = IntTensor "int list" | FloatTensor "'f list"

datatype 'f ivalue =
    INone
  | IBool bool
  | IInt int
  | IDouble 'f
  | IString string
  | ITensor "'f tensor"
  | IList "'f ivalue list"
  | ITuple "'f ivalue list"

text \<open>
  A module has named methods and named attributes, both in declaration order, a training
  flag and a device. A method takes its inputs and the attributes; it returns a value or
  throws (\<open>None\<close>), and leaves the attributes as it changed them, also when it throws.
  \<open>invoked\<close> is a ghost field: the names of the methods that were run, latest first.
\<close>

type_synonym 'f attrs = "(string \<times> 'f ivalue) list"
type_synonym 'f jit_method = "'f ivalue list \<Rightarrow> 'f attrs \<Rightarrow> 'f ivalue option \<times> 'f attrs"

record 'f jit_module =
  get_methods :: "(string \<times> 'f jit_method) list"
  named_attributes :: "'f attrs"
  training :: bool
  on_device :: device
  invoked :: "string list"

text \<open>\<open>m.get_method(name)\<close> and \<open>m.attr(name)\<close>: \<open>None\<close> where the library throws.\<close>

definition get_method :: "'f jit_module \<Rightarrow> string \<Rightarrow> 'f jit_method option" where
  "get_method m name = map_of (get_methods m) name"

definition attr :: "'f jit_module \<Rightarrow> string \<Rightarrow> 'f ivalue option" where
  "attr m name = map_of (named_attributes m) name"

text \<open>
  \<open>m.get_method(name)(inputs)\<close>: the lookup and the call. When the lookup throws nothing
  was run and the module is as before.
\<close>

definition invoke ::
  "'f jit_module \<Rightarrow> string \<Rightarrow> 'f ivalue list \<Rightarrow> 'f ivalue option \<times> 'f jit_module" where
  "invoke m name inputs =
     (case get_method m name of
        None \<Rightarrow> (None, m)
      | Some f \<Rightarrow>
          (case f inputs (named_attributes m) of
             (r, a) \<Rightarrow> (r, m\<lparr>named_attributes := a, invoked := name # invoked m\<rparr>)))"

text \<open>\<open>model.eval()\<close> and \<open>model.to(device)\<close>.\<close>

definition eval_mode :: "'f jit_module \<Rightarrow> 'f jit_module" where
  "eval_mode m = m\<lparr>training := False\<rparr>"

definition to_device :: "'f jit_module \<Rightarrow> device \<Rightarrow> 'f jit_module" where
  "to_device m d = m\<lparr>on_device := d\<rparr>"

text \<open>
  What the backend calls and the sources at hand do not define is a parameter, collected
  in one record:
  \<^item> \<open>to_bool\<close>, \<open>to_int\<close>, \<open>to_float\<close> of \<open>parsing_utils.h\<close> (\<open>None\<close>: the helper throws);
  \<^item> \<open>float_to_string\<close>: \<open>std::to_string\<close> of the value converted to \<open>float\<close>;
  \<open>float_to_int\<close>: the integer a floating-point scalar converts to (\<open>None\<close>: it has none);
  \<^item> \<open>jit_load\<close>: \<open>torch::jit::load\<close>, the module stored at a path (\<open>None\<close>: it throws).
\<close>

record 'f env =
  to_bool :: "string \<Rightarrow> bool option"
  to_int :: "string \<Rightarrow> int option"
  to_float :: "string \<Rightarrow> 'f option"
  float_to_string :: "'f \<Rightarrow> string"
  float_to_int :: "'f \<Rightarrow> int option"
  jit_load :: "string \<Rightarrow> 'f jit_module option"

text \<open>
  \<open>t[i].item().to<int>()\<close> (and \<open>.toInt()\<close>): indexing throws past the end, and the
  conversion of the scalar to \<open>int\<close> is checked, it throws when the value does not fit 32
  bits. \<open>t.size(0)\<close> is the number of entries.
\<close>

definition checked_int :: "int \<Rightarrow> cint option" where
  "checked_int v = (if - (2 ^ 31) \<le> v \<and> v < 2 ^ 31 then Some (word_of_int v) else None)"

definition size0 :: "'f tensor \<Rightarrow> nat" where
  "size0 t = (case t of IntTensor xs \<Rightarrow> length xs | FloatTensor fs \<Rightarrow> length fs)"

definition item_int :: "'f env \<Rightarrow> 'f tensor \<Rightarrow> nat \<Rightarrow> cint option" where
  "item_int env t i =
     (case t of
        IntTensor xs \<Rightarrow> (if i < length xs then checked_int (xs ! i) else None)
      | FloatTensor fs \<Rightarrow>
          (if i < length fs then
             (case float_to_int env (fs ! i) of None \<Rightarrow> None | Some v \<Rightarrow> checked_int v)
           else None))"


section \<open>Backend: \<open>Backend_MSG\<close>\<close>

text \<open>
  What a function throws is a value. The first five are the strings the backend throws
  itself; \<open>Torch_error\<close> is an exception of the library that nothing catches,
  \<open>Parse_error\<close> one of a parsing helper. \<open>Out_of_range\<close> marks a read past the end of
  a \<open>std::vector\<close>, where C++ defines no behaviour: the model stops there.
  A function that can throw returns \<open>error + result\<close>; the state left behind by a throw
  is not described.
\<close>

datatype error =
    Getter_not_found string
  | Setter_not_found string
  | Params_not_found string
  | Bad_type_id cint nat
  | Setter_failed string
  | Torch_error
  | Parse_error
  | Out_of_range

record 'f backend =
  m_model :: "'f jit_module"
  m_loaded :: cint
  m_available_methods :: "string list"
  m_path :: string
  m_device :: device
  m_use_gpu :: bool

text \<open>
  The constructor: \<^verbatim>\<open>Backend_MSG() : m_loaded(0), m_device(CPU), m_use_gpu(false)\<close>, with a
  default module. Every lookup in it fails, which the model renders as a module that has
  no method and no attribute; what the library does when the methods or attributes of a
  module that was never loaded are listed is not described.
\<close>

definition empty_module :: "'f jit_module" where
  "empty_module =
     \<lparr>get_methods = [], named_attributes = [], training = True, on_device = CPU, invoked = []\<rparr>"

definition Backend_MSG :: "'f backend" where
  "Backend_MSG = \<lparr>m_model = empty_module, m_loaded = 0, m_available_methods = [],
     m_path = [], m_device = CPU, m_use_gpu = False\<rparr>"

text \<open>
  \<^verbatim>\<open>
  std::vector<int> params;
  if (std::find(m_available_methods.begin(), m_available_methods.end(), method)
      != m_available_methods.end()) {
    try {
      auto p = m_model.attr(method + "_params").toTensor();
      for (int i(0); i < 4; i++)
        params.push_back(p[i].item().to<int>());
    } catch (...) { }
  }
  return params;
  \<close>
  An exception in the loop leaves in \<open>params\<close> what was pushed before it: a tensor with
  fewer than four readable entries gives a vector of fewer than four.
\<close>

fun push_back_until_throw :: "'a option list \<Rightarrow> 'a list" where
  "push_back_until_throw [] = []"
| "push_back_until_throw (None # _) = []"
| "push_back_until_throw (Some v # vs) = v # push_back_until_throw vs"

definition get_method_params :: "'f env \<Rightarrow> 'f backend \<Rightarrow> string \<Rightarrow> cint list" where
  "get_method_params env b method =
     (if method \<in> set (m_available_methods b) then
        (case attr (m_model b) (method @ ''_params'') of
           Some (ITensor p) \<Rightarrow> push_back_until_throw (map (item_int env p) [0..<4])
         | _ \<Rightarrow> [])
      else [])"

text \<open>
  \<^verbatim>\<open>
  int higher_ratio = 1;
  for (const auto &method : m_available_methods) {
    auto params = get_method_params(method);
    if (!params.size())
      continue; // METHOD NOT USABLE, SKIPPING
    int max_ratio = std::max(params[1], params[3]);
    higher_ratio = std::max(higher_ratio, max_ratio);
  }
  return higher_ratio;
  \<close>
  \<open>params[3]\<close> on a vector of one to three entries is a read past its end: the result
  is \<open>None\<close> there, and \<open>Some\<close> of the returned \<open>int\<close> otherwise.
\<close>

fun higher_ratio_loop :: "'f env \<Rightarrow> 'f backend \<Rightarrow> string list \<Rightarrow> cint \<Rightarrow> cint option" where
  "higher_ratio_loop env b [] higher_ratio = Some higher_ratio"
| "higher_ratio_loop env b (method # methods) higher_ratio =
     (let params = get_method_params env b method in
      if params = [] then higher_ratio_loop env b methods higher_ratio
      else if length params < 4 then None
      else
        (let max_ratio = std_max (params ! 1) (params ! 3) in
         higher_ratio_loop env b methods (std_max higher_ratio max_ratio)))"

definition get_higher_ratio :: "'f env \<Rightarrow> 'f backend \<Rightarrow> cint option" where
  "get_higher_ratio env b = higher_ratio_loop env b (m_available_methods b) 1"

definition is_loaded :: "'f backend \<Rightarrow> bool" where
  "is_loaded b = (m_loaded b \<noteq> 0)"

text \<open>
  \<open>perform(in_msg, out_msg, method)\<close>. In the order of the source: the parameters are
  fetched and an empty vector returns; \<open>params[0]\<close> to \<open>params[3]\<close> are read
  (\<open>Out_of_range\<close> on a vector of one to three entries); an unloaded backend returns;
  the input becomes a float tensor; inside the \<open>try\<close> the method is looked up and called
  and its result converted with \<open>toTensor\<close>, and the \<open>catch\<close> returns; after it the
  result is flattened, \<open>out_msg\<close> is resized to its length and overwritten with its
  floats (\<open>data_ptr<float>\<close> throws on a tensor of another element kind).
  The result is the backend, whose module the call may have changed, and \<open>out_msg\<close>.
\<close>

definition perform ::
  "'f env \<Rightarrow> 'f backend \<Rightarrow> 'f list \<Rightarrow> 'f list \<Rightarrow> string \<Rightarrow> error + 'f backend \<times> 'f list" where
  "perform env b in_msg out_msg method =
     (let params = get_method_params env b method in
      if params = [] then Inr (b, out_msg)
      else if length params < 4 then Inl Out_of_range
      else if m_loaded b = 0 then Inr (b, out_msg)
      else
        (case invoke (m_model b) method [ITensor (FloatTensor in_msg)] of
           (Some (ITensor tensor_out), m) \<Rightarrow>
             (case tensor_out of
                FloatTensor ys \<Rightarrow> Inr (b\<lparr>m_model := m\<rparr>, ys)
              | IntTensor _ \<Rightarrow> Inl Torch_error)
         | (_, m) \<Rightarrow> Inr (b\<lparr>m_model := m\<rparr>, out_msg)))"

text \<open>
  \<open>get_available_methods\<close> and \<open>get_settable_attributes\<close> share one shape:
  \<^verbatim>\<open>
  try {
    auto methods_from_model = m_model.get_method("get_methods")(dumb_input).toList();
    for (int i = 0; i < methods_from_model.size(); i++)
      methods.push_back(methods_from_model.get(i).toStringRef());
  } catch (...) {
    for (const auto &m : m_model.get_methods()) {
      try {
        auto method_params = m_model.attr(m.name() + "_params");
        methods.push_back(m.name());
      } catch (...) { }
    }
  }
  return methods;
  \<close>
  \<open>string_refs\<close> is the first loop: the names pushed, and whether it ran to its end
  (\<open>toStringRef\<close> throws on an entry that is no string, and the names pushed before stay).
\<close>

fun string_refs :: "'f ivalue list \<Rightarrow> string list \<times> bool" where
  "string_refs [] = ([], True)"
| "string_refs (IString s # vs) = (case string_refs vs of (ss, complete) \<Rightarrow> (s # ss, complete))"
| "string_refs (_ # vs) = ([], False)"

definition methods_with_params :: "'f jit_module \<Rightarrow> string list" where
  "methods_with_params m =
     filter (\<lambda>name. attr m (name @ ''_params'') \<noteq> None) (map fst (get_methods m))"

definition attributes_with_params :: "'f jit_module \<Rightarrow> string list" where
  "attributes_with_params m =
     filter (\<lambda>name. attr m (name @ ''_params'') \<noteq> None) (map fst (named_attributes m))"

definition get_available_methods :: "'f backend \<Rightarrow> string list \<times> 'f backend" where
  "get_available_methods b =
     (case invoke (m_model b) ''get_methods'' [] of
        (Some (IList methods_from_model), m) \<Rightarrow>
          (case string_refs methods_from_model of
             (methods, True) \<Rightarrow> (methods, b\<lparr>m_model := m\<rparr>)
           | (methods, False) \<Rightarrow> (methods @ methods_with_params m, b\<lparr>m_model := m\<rparr>))
      | (_, m) \<Rightarrow> (methods_with_params m, b\<lparr>m_model := m\<rparr>))"

definition get_settable_attributes :: "'f backend \<Rightarrow> string list \<times> 'f backend" where
  "get_settable_attributes b =
     (case invoke (m_model b) ''get_attributes'' [] of
        (Some (IList methods_from_model), m) \<Rightarrow>
          (case string_refs methods_from_model of
             (attributes, True) \<Rightarrow> (attributes, b\<lparr>m_model := m\<rparr>)
           | (attributes, False) \<Rightarrow> (attributes @ attributes_with_params m, b\<lparr>m_model := m\<rparr>))
      | (_, m) \<Rightarrow> (attributes_with_params m, b\<lparr>m_model := m\<rparr>))"

text \<open>
  \<^verbatim>\<open>
  std::vector<std::string> attributes;
  for (const auto &attribute : m_model.named_attributes())
    attributes.push_back(attribute.name);
  return attributes;
  \<close>
\<close>

definition get_available_attributes :: "'f backend \<Rightarrow> string list" where
  "get_available_attributes b = map fst (named_attributes (m_model b))"

text \<open>
  \<^verbatim>\<open>
  try {
    auto model = torch::jit::load(path);
    model.eval();
    model.to(m_device);
    m_model = model;
    m_loaded = 1;
    m_available_methods = get_available_methods();
    m_path = path;
    return 0;
  } catch (const std::exception &e) {
    return 1;
  }
  \<close>
  (the lock around the two assignments left out). \<open>eval\<close> and \<open>to\<close> are taken not to
  throw on a module that was loaded; an exception there would reach the same \<open>catch\<close> as
  one of \<open>torch::jit::load\<close>, before anything is assigned. \<open>reload\<close> is
  \<open>load(m_path)\<close>.
\<close>

definition load :: "'f env \<Rightarrow> 'f backend \<Rightarrow> string \<Rightarrow> cint \<times> 'f backend" where
  "load env b path =
     (case jit_load env path of
        None \<Rightarrow> (1, b)
      | Some loaded \<Rightarrow>
          (let model = to_device (eval_mode loaded) (m_device b);
               b1 = b\<lparr>m_model := model, m_loaded := 1\<rparr>;
               (methods, b2) = get_available_methods b1
           in (0, b2\<lparr>m_available_methods := methods, m_path := path\<rparr>)))"

definition reload :: "'f env \<Rightarrow> 'f backend \<Rightarrow> cint \<times> 'f backend" where
  "reload env b = load env b (m_path b)"

section \<open>Backend: the attribute protocol\<close>

text \<open>
  \<open>get_attribute\<close> looks the getter up (a failed lookup throws the "getter not found"
  string) and then calls it up to three times:
  \<^verbatim>\<open>
  try {
    try {
      attributes = m_model.get_method(attribute_getter_name)(getter_inputs).toList().vec();
    } catch (...) {
      auto output_tuple = m_model.get_method(attribute_getter_name)(getter_inputs).toTuple();
      attributes = (*output_tuple.get()).elements();
    }
  } catch (...) {
    attributes.push_back(m_model.get_method(attribute_getter_name)(getter_inputs));
  }
  return attributes;
  \<close>
  An exception of the third call leaves the function.
\<close>

definition get_attribute ::
  "'f backend \<Rightarrow> string \<Rightarrow> error + 'f ivalue list \<times> 'f backend" where
  "get_attribute b attribute_name =
     (let attribute_getter_name = ''get_'' @ attribute_name in
      case get_method (m_model b) attribute_getter_name of
        None \<Rightarrow> Inl (Getter_not_found attribute_name)
      | Some _ \<Rightarrow>
          (case invoke (m_model b) attribute_getter_name [] of
             (Some (IList attributes), m1) \<Rightarrow> Inr (attributes, b\<lparr>m_model := m1\<rparr>)
           | (_, m1) \<Rightarrow>
               (case invoke m1 attribute_getter_name [] of
                  (Some (ITuple attributes), m2) \<Rightarrow> Inr (attributes, b\<lparr>m_model := m2\<rparr>)
                | (_, m2) \<Rightarrow>
                    (case invoke m2 attribute_getter_name [] of
                       (Some v, m3) \<Rightarrow> Inr ([v], b\<lparr>m_model := m3\<rparr>)
                     | (None, m3) \<Rightarrow> Inl Torch_error))))"

text \<open>\<open>std::to_string\<close> of an integer: decimal digits, with a minus sign when negative.\<close>

definition digit_char :: "nat \<Rightarrow> char" where
  "digit_char d = ''0123456789'' ! d"

fun nat_to_string :: "nat \<Rightarrow> string" where
  "nat_to_string n =
     (if n < 10 then [digit_char n] else nat_to_string (n div 10) @ [digit_char (n mod 10)])"

declare nat_to_string.simps [simp del]

definition int_to_string :: "int \<Rightarrow> string" where
  "int_to_string v =
     (if v < 0 then CHR ''-'' # nat_to_string (nat (- v)) else nat_to_string (nat v))"

text \<open>
  The \<open>switch (current_id)\<close> of \<open>get_attribute_as_string\<close>: one formatted field from
  \<open>getter_outputs[i]\<close>. The vector is indexed without a check; a conversion throws on a
  value of another tag; the \<open>default\<close> case throws the "bad type id" string.
\<close>

definition format_field :: "'f env \<Rightarrow> cint \<Rightarrow> 'f ivalue list \<Rightarrow> nat \<Rightarrow> error + string" where
  "format_field env current_id getter_outputs i =
     (if current_id = 0 then
        (if i < length getter_outputs then
           (case getter_outputs ! i of
              IBool v \<Rightarrow> Inr (if v then ''true'' else ''false'')
            | _ \<Rightarrow> Inl Torch_error)
         else Inl Out_of_range)
      else if current_id = 1 then
        (if i < length getter_outputs then
           (case getter_outputs ! i of
              IInt v \<Rightarrow> Inr (int_to_string v)
            | _ \<Rightarrow> Inl Torch_error)
         else Inl Out_of_range)
      else if current_id = 2 then
        (if i < length getter_outputs then
           (case getter_outputs ! i of
              IDouble v \<Rightarrow> Inr (float_to_string env v)
            | _ \<Rightarrow> Inl Torch_error)
         else Inl Out_of_range)
      else if current_id = 3 then
        (if i < length getter_outputs then
           (case getter_outputs ! i of
              IString v \<Rightarrow> Inr v
            | _ \<Rightarrow> Inl Torch_error)
         else Inl Out_of_range)
      else Inl (Bad_type_id current_id i))"

text \<open>
  The loop \<^verbatim>\<open>for (int i = 0; i < setter_params.size(0); i++)\<close> over the indices still to
  do, with \<open>current_attr\<close> as accumulator; after each field
  \<^verbatim>\<open>if (i < setter_params.size(0) - 1) current_attr += " ";\<close>.
\<close>

fun attr_string_loop ::
  "'f env \<Rightarrow> 'f ivalue list \<Rightarrow> 'f tensor \<Rightarrow> nat list \<Rightarrow> string \<Rightarrow> error + string" where
  "attr_string_loop env getter_outputs setter_params [] current_attr = Inr current_attr"
| "attr_string_loop env getter_outputs setter_params (i # is) current_attr =
     (case item_int env setter_params i of
        None \<Rightarrow> Inl Torch_error
      | Some current_id \<Rightarrow>
          (case format_field env current_id getter_outputs i of
             Inl e \<Rightarrow> Inl e
           | Inr field \<Rightarrow>
               attr_string_loop env getter_outputs setter_params is
                 (current_attr @ field @
                    (if i < size0 setter_params - 1 then '' '' else ''''))))"

text \<open>
  \<open>get_attribute_as_string\<close>: the getter's values, then the schema
  \<^verbatim>\<open>m_model.attr(attribute_name + "_params").toTensor()\<close> (any exception there becomes the
  "parameters ... not found" string), then the loop.
\<close>

definition get_attribute_as_string ::
  "'f env \<Rightarrow> 'f backend \<Rightarrow> string \<Rightarrow> error + string \<times> 'f backend" where
  "get_attribute_as_string env b attribute_name =
     (case get_attribute b attribute_name of
        Inl e \<Rightarrow> Inl e
      | Inr (getter_outputs, b1) \<Rightarrow>
          (case attr (m_model b1) (attribute_name @ ''_params'') of
             Some (ITensor setter_params) \<Rightarrow>
               (case attr_string_loop env getter_outputs setter_params
                       [0..<size0 setter_params] [] of
                  Inl e \<Rightarrow> Inl e
                | Inr current_attr \<Rightarrow> Inr (current_attr, b1))
           | _ \<Rightarrow> Inl (Params_not_found attribute_name)))"

text \<open>
  The \<open>switch\<close> of \<open>set_attribute\<close>: one typed input from \<open>attribute_args[i]\<close>, again
  indexed without a check.
\<close>

definition setter_input :: "'f env \<Rightarrow> cint \<Rightarrow> string list \<Rightarrow> nat \<Rightarrow> error + 'f ivalue" where
  "setter_input env current_id attribute_args i =
     (if current_id = 0 then
        (if i < length attribute_args then
           (case to_bool env (attribute_args ! i) of
              Some v \<Rightarrow> Inr (IBool v) | None \<Rightarrow> Inl Parse_error)
         else Inl Out_of_range)
      else if current_id = 1 then
        (if i < length attribute_args then
           (case to_int env (attribute_args ! i) of
              Some v \<Rightarrow> Inr (IInt v) | None \<Rightarrow> Inl Parse_error)
         else Inl Out_of_range)
      else if current_id = 2 then
        (if i < length attribute_args then
           (case to_float env (attribute_args ! i) of
              Some v \<Rightarrow> Inr (IDouble v) | None \<Rightarrow> Inl Parse_error)
         else Inl Out_of_range)
      else if current_id = 3 then
        (if i < length attribute_args then Inr (IString (attribute_args ! i))
         else Inl Out_of_range)
      else Inl (Bad_type_id current_id i))"

fun setter_inputs_loop ::
  "'f env \<Rightarrow> string list \<Rightarrow> 'f tensor \<Rightarrow> nat list \<Rightarrow> 'f ivalue list \<Rightarrow>
     error + 'f ivalue list" where
  "setter_inputs_loop env attribute_args setter_params [] setter_inputs = Inr setter_inputs"
| "setter_inputs_loop env attribute_args setter_params (i # is) setter_inputs =
     (case item_int env setter_params i of
        None \<Rightarrow> Inl Torch_error
      | Some current_id \<Rightarrow>
          (case setter_input env current_id attribute_args i of
             Inl e \<Rightarrow> Inl e
           | Inr v \<Rightarrow>
               setter_inputs_loop env attribute_args setter_params is (setter_inputs @ [v])))"

text \<open>
  \<open>set_attribute\<close>: the setter is looked up, then the schema, then the inputs are built,
  then
  \<^verbatim>\<open>
  try {
    auto setter_out = m_model.get_method(attribute_setter_name)(setter_inputs);
    int setter_result = setter_out.toInt();
    if (setter_result != 0) { throw "setter returned -1"; }
  } catch (...) {
    throw "setter for " + attribute_name + " failed";
  }
  \<close>
  \<open>toInt\<close> gives 64 bits and \<open>setter_result\<close> keeps the low 32 of them.
\<close>

definition set_attribute ::
  "'f env \<Rightarrow> 'f backend \<Rightarrow> string \<Rightarrow> string list \<Rightarrow> error + 'f backend" where
  "set_attribute env b attribute_name attribute_args =
     (let attribute_setter_name = ''set_'' @ attribute_name in
      case get_method (m_model b) attribute_setter_name of
        None \<Rightarrow> Inl (Setter_not_found attribute_name)
      | Some _ \<Rightarrow>
          (case attr (m_model b) (attribute_name @ ''_params'') of
             Some (ITensor setter_params) \<Rightarrow>
               (case setter_inputs_loop env attribute_args setter_params
                       [0..<size0 setter_params] [] of
                  Inl e \<Rightarrow> Inl e
                | Inr setter_inputs \<Rightarrow>
                    (case invoke (m_model b) attribute_setter_name setter_inputs of
                       (Some (IInt setter_out), m) \<Rightarrow>
                         (let setter_result = (word_of_int setter_out :: cint) in
                          if setter_result \<noteq> 0 then Inl (Setter_failed attribute_name)
                          else Inr (b\<lparr>m_model := m\<rparr>))
                     | (_, m) \<Rightarrow> Inl (Setter_failed attribute_name)))
           | _ \<Rightarrow> Inl (Params_not_found attribute_name)))"

section \<open>Frontend: the audio callback of \<open>nn_msg_tilde\<close>\<close>

text \<open>
  An \<open>audio_bundle\<close> is the host's block: \<open>channel_count\<close> channels of \<open>frame_count\<close>
  samples each. The host allocates it, so a well-formed bundle has exactly \<open>frame_count\<close>
  samples in every channel. Samples are of a type \<open>'d\<close> with a zero (\<open>double\<close> in the
  source).
\<close>

record 'd audio_bundle =
  samples :: "'d list list"
  frame_count :: nat

definition channel_count :: "'d audio_bundle \<Rightarrow> nat" where
  "channel_count output = length (samples output)"

text \<open>
  The members of the object that the callback uses. \<open>m_backend\<close> is the source's
  \<open>m_model\<close>, the pointer to the \<open>Backend_MSG\<close> (the name is taken by the backend's own
  field); \<open>enable\<close> is the attribute of that name; \<open>'cb\<close> is the type of a circular
  buffer.
\<close>

record ('f, 'cb) nn_msg_tilde =
  m_backend :: "'f backend"
  m_method :: string
  enable :: bool
  m_buffer_size :: cint
  input_msg :: "'f list"
  output_msg :: "'f list"
  m_out_buffer :: "'cb list"

text \<open>
  \<^verbatim>\<open>
  void fill_with_zero(audio_bundle output) {
    for (int c(0); c < output.channel_count(); c++) {
      auto out = output.samples(c);
      for (int i(0); i < output.frame_count(); i++) {
        out[i] = 0.;
      }
    }
  }
  \<close>
\<close>

definition fill_with_zero :: "'d::zero audio_bundle \<Rightarrow> 'd audio_bundle" where
  "fill_with_zero output =
     output\<lparr>samples :=
       fold (\<lambda>c s. s[c := fold (\<lambda>i out. out[i := 0]) [0..<frame_count output] (s ! c)])
         [0..<channel_count output] (samples output)\<rparr>"

text \<open>
  \<open>nn_msg_tilde::perform\<close>: the backend is called on the stored input message, its output
  message is put into the first circular buffer, and every output channel is read from the
  buffer of its index. \<open>circular_buffer.h\<close> is not among the sources: \<open>cb_put\<close> and
  \<open>cb_get\<close> are parameters. The array \<open>m_out_buffer\<close> is indexed without a check.
\<close>

definition get_channels ::
  "('cb \<Rightarrow> 'd list \<Rightarrow> nat \<Rightarrow> 'd list \<times> 'cb) \<Rightarrow> nat \<Rightarrow> nat list \<Rightarrow>
     'd list list \<times> 'cb list \<Rightarrow> 'd list list \<times> 'cb list" where
  "get_channels cb_get vec_size cs st =
     fold (\<lambda>c (s, bufs).
             (case cb_get (bufs ! c) (s ! c) vec_size of
                (out, buf) \<Rightarrow> (s[c := out], bufs[c := buf])))
       cs st"

definition nn_perform ::
  "'f env \<Rightarrow> ('cb \<Rightarrow> 'f list \<Rightarrow> 'cb) \<Rightarrow> ('cb \<Rightarrow> 'd list \<Rightarrow> nat \<Rightarrow> 'd list \<times> 'cb) \<Rightarrow>
     ('f, 'cb) nn_msg_tilde \<Rightarrow> 'd audio_bundle \<Rightarrow> 'd audio_bundle \<Rightarrow>
     error + ('f, 'cb) nn_msg_tilde \<times> 'd audio_bundle" where
  "nn_perform env cb_put cb_get obj input output =
     (let vec_size = frame_count output in
      case perform env (m_backend obj) (input_msg obj) (output_msg obj) (m_method obj) of
        Inl e \<Rightarrow> Inl e
      | Inr (b, out_msg) \<Rightarrow>
          (case m_out_buffer obj of
             [] \<Rightarrow> Inl Out_of_range
           | buf0 # bufs \<Rightarrow>
               (if length (buf0 # bufs) < channel_count output then Inl Out_of_range
                else
                  (case get_channels cb_get vec_size [0..<channel_count output]
                          (samples output, cb_put buf0 out_msg # bufs) of
                     (s, bufs') \<Rightarrow>
                       Inr (obj\<lparr>m_backend := b, output_msg := out_msg, m_out_buffer := bufs'\<rparr>,
                            output\<lparr>samples := s\<rparr>)))))"

text \<open>
  \<^verbatim>\<open>
  void nn_msg_tilde::operator()(audio_bundle input, audio_bundle output) {
    auto dsp_vec_size = output.frame_count();
    if (!m_model->is_loaded() || !enable) {
      fill_with_zero(output);
      return;
    }
    if (dsp_vec_size > m_buffer_size) {
      cerr << "vector size (" << dsp_vec_size << ") ";  // ... "disabling model."
      enable = false;
      fill_with_zero(output);
      return;
    }
    perform(input, output);
  }
  \<close>
  The result is the object, the output block and the console lines written.
\<close>

definition call_operator ::
  "'f env \<Rightarrow> ('cb \<Rightarrow> 'f list \<Rightarrow> 'cb) \<Rightarrow> ('cb \<Rightarrow> 'd list \<Rightarrow> nat \<Rightarrow> 'd list \<times> 'cb) \<Rightarrow>
     ('f, 'cb) nn_msg_tilde \<Rightarrow> 'd::zero audio_bundle \<Rightarrow> 'd audio_bundle \<Rightarrow>
     error + ('f, 'cb) nn_msg_tilde \<times> 'd audio_bundle \<times> console_line list" where
  "call_operator env cb_put cb_get obj input output =
     (let dsp_vec_size = frame_count output in
      if \<not> is_loaded (m_backend obj) \<or> \<not> enable obj then
        Inr (obj, fill_with_zero output, [])
      else if sint (m_buffer_size obj) < int dsp_vec_size then
        Inr (obj\<lparr>enable := False\<rparr>, fill_with_zero output,
             [Vector_size_larger dsp_vec_size (m_buffer_size obj)])
      else
        (case nn_perform env cb_put cb_get obj input output of
           Inl e \<Rightarrow> Inl e
         | Inr (obj', output') \<Rightarrow> Inr (obj', output', [])))"

section \<open>The statements of the specification, as functions\<close>

text \<open>
  These definitions follow the words of the specification, not the code; the theorems
  below compare the code with them.

  The ratio of a usable method: \<open>max(input_ratio, output_ratio)\<close>, the entries 1 and 3 of
  its parameters, read as \<open>int\<close>.
\<close>

definition usable_ratio :: "'f env \<Rightarrow> 'f backend \<Rightarrow> string \<Rightarrow> int" where
  "usable_ratio env b method =
     max (sint (get_method_params env b method ! 1)) (sint (get_method_params env b method ! 3))"

text \<open>
  A value formatted by its type tag: 0 a boolean as \<open>true\<close> or \<open>false\<close>, 1 an integer in
  decimal, 2 a float as the library prints it, 3 a string as it is. \<open>None\<close> when the value
  is not of the tag's type, or the tag is none of the four.
\<close>

definition format_value :: "'f env \<Rightarrow> cint \<Rightarrow> 'f ivalue \<Rightarrow> string option" where
  "format_value env tag v =
     (if tag = 0 then
        (case v of IBool x \<Rightarrow> Some (if x then ''true'' else ''false'') | _ \<Rightarrow> None)
      else if tag = 1 then (case v of IInt x \<Rightarrow> Some (int_to_string x) | _ \<Rightarrow> None)
      else if tag = 2 then (case v of IDouble x \<Rightarrow> Some (float_to_string env x) | _ \<Rightarrow> None)
      else if tag = 3 then (case v of IString x \<Rightarrow> Some x | _ \<Rightarrow> None)
      else None)"

text \<open>The \<open>i\<close>-th value formatted by the \<open>i\<close>-th tag of the schema.\<close>

definition formatted_field :: "'f env \<Rightarrow> 'f tensor \<Rightarrow> 'f ivalue list \<Rightarrow> nat \<Rightarrow> string option" where
  "formatted_field env schema vals i =
     (case item_int env schema i of
        None \<Rightarrow> None
      | Some tag \<Rightarrow> format_value env tag (vals ! i))"

text \<open>Fields joined with a single space, and none after the last.\<close>

fun join_space :: "string list \<Rightarrow> string" where
  "join_space [] = []"
| "join_space [str] = str"
| "join_space (str # strs) = str @ '' '' @ join_space strs"

text \<open>
  A string argument parsed by its type tag (boolean parse, integer parse, float parse, or
  the string passed through), and the \<open>i\<close>-th argument parsed by the \<open>i\<close>-th tag of the
  schema. \<open>None\<close> when the helper throws, or the tag is none of the four.
\<close>

definition parse_arg :: "'f env \<Rightarrow> cint \<Rightarrow> string \<Rightarrow> 'f ivalue option" where
  "parse_arg env tag s =
     (if tag = 0 then map_option IBool (to_bool env s)
      else if tag = 1 then map_option IInt (to_int env s)
      else if tag = 2 then map_option IDouble (to_float env s)
      else if tag = 3 then Some (IString s)
      else None)"

definition typed_input :: "'f env \<Rightarrow> 'f tensor \<Rightarrow> string list \<Rightarrow> nat \<Rightarrow> 'f ivalue option" where
  "typed_input env schema args i =
     (case item_int env schema i of
        None \<Rightarrow> None
      | Some tag \<Rightarrow> parse_arg env tag (args ! i))"

text \<open>A setter's outcome that counts as success: it returned an integer that is 0 as \<open>int\<close>.\<close>

definition returns_zero :: "'f ivalue option \<Rightarrow> bool" where
  "returns_zero r = (case r of Some (IInt c) \<Rightarrow> (word_of_int c :: cint) = 0 | _ \<Rightarrow> False)"

section \<open>An example model\<close>

text \<open>
  A concrete module, environment and object, to evaluate the functions on. The module has
  the two methods \<open>A\<close> and \<open>B\<close> with the parameters \<open>(1, 4, 1, 2)\<close> and \<open>(1, 1, 1, 1)\<close>
  (\<open>A\<close> returns its input, \<open>B\<close> throws), an attribute \<open>gain\<close> of schema
  \<open>[bool, int, float, string]\<close> with a getter and a setter that stores its inputs, an
  attribute \<open>locked\<close> whose setter throws and which has no getter, an attribute \<open>mode\<close>
  whose schema holds the tag 7, and an attribute \<open>sr\<close> with a getter and no schema.

  In the example environment a float is a whole number of millionths, printed with six
  decimals as \<open>std::to_string\<close> prints a \<open>float\<close>; the parsing helpers know the strings of
  the example; the file \<open>model.ts\<close> holds the module.
\<close>

definition example_to_bool :: "string \<Rightarrow> bool option" where
  "example_to_bool s =
     (if s = ''true'' then Some True else if s = ''false'' then Some False else None)"

definition example_float_to_string :: "int \<Rightarrow> string" where
  "example_float_to_string v =
     int_to_string (v div 1000000) @ ''.'' @ drop 1 (int_to_string (1000000 + v mod 1000000))"

definition echo_method :: "int jit_method" where
  "echo_method inputs a = (case inputs of [v] \<Rightarrow> (Some v, a) | _ \<Rightarrow> (None, a))"

definition raising_method :: "int jit_method" where
  "raising_method inputs a = (None, a)"

definition get_gain_method :: "int jit_method" where
  "get_gain_method inputs a = (map_of a ''gain'', a)"

definition set_gain_method :: "int jit_method" where
  "set_gain_method inputs a =
     (Some (IInt 0), map (\<lambda>(k, v). if k = ''gain'' then (k, ITuple inputs) else (k, v)) a)"

definition get_mode_method :: "int jit_method" where
  "get_mode_method inputs a = (map_of a ''mode'', a)"

definition get_sr_method :: "int jit_method" where
  "get_sr_method inputs a = (map_of a ''sr'', a)"

definition list_attributes_method :: "int jit_method" where
  "list_attributes_method inputs a = (Some (IList [IString ''gain'']), a)"

definition example_module :: "int jit_module" where
  "example_module = \<lparr>
     get_methods =
       [(''A'', echo_method), (''B'', raising_method),
        (''get_gain'', get_gain_method), (''set_gain'', set_gain_method),
        (''set_locked'', raising_method),
        (''get_mode'', get_mode_method), (''get_sr'', get_sr_method)],
     named_attributes =
       [(''A_params'', ITensor (IntTensor [1, 4, 1, 2])),
        (''B_params'', ITensor (IntTensor [1, 1, 1, 1])),
        (''gain'', ITuple [IBool False, IInt 0, IDouble 0, IString []]),
        (''gain_params'', ITensor (IntTensor [0, 1, 2, 3])),
        (''locked'', IString []),
        (''locked_params'', ITensor (IntTensor [3])),
        (''mode'', IInt 1),
        (''mode_params'', ITensor (IntTensor [7])),
        (''sr'', IInt 44100)],
     training = True, on_device = CPU, invoked = []\<rparr>"

definition example_env :: "int env" where
  "example_env = \<lparr>
     to_bool = example_to_bool,
     to_int = map_of [(''3'', 3)],
     to_float = map_of [(''1.5'', 1500000)],
     float_to_string = example_float_to_string,
     float_to_int = (\<lambda>v. Some (v div 1000000)),
     jit_load = map_of [(''model.ts'', example_module)]\<rparr>"

text \<open>The backend after \<open>load("model.ts")\<close>, and the same with the \<open>gain\<close> set.\<close>

definition example_backend :: "int backend" where
  "example_backend = \<lparr>m_model = example_module\<lparr>training := False\<rparr>, m_loaded = 1,
     m_available_methods = [''A'', ''B''], m_path = ''model.ts'', m_device = CPU,
     m_use_gpu = False\<rparr>"

definition gain_values :: "int ivalue list" where
  "gain_values = [IBool True, IInt 3, IDouble 1500000, IString ''hello'']"

definition gain_set_module :: "int jit_module" where
  "gain_set_module = (m_model example_backend)\<lparr>
     named_attributes :=
       [(''A_params'', ITensor (IntTensor [1, 4, 1, 2])),
        (''B_params'', ITensor (IntTensor [1, 1, 1, 1])),
        (''gain'', ITuple gain_values),
        (''gain_params'', ITensor (IntTensor [0, 1, 2, 3])),
        (''locked'', IString []),
        (''locked_params'', ITensor (IntTensor [3])),
        (''mode'', IInt 1),
        (''mode_params'', ITensor (IntTensor [7])),
        (''sr'', IInt 44100)],
     invoked := [''set_gain'']\<rparr>"

text \<open>A backend whose module also answers \<open>get_attributes\<close>, and one whose only method has
  the ratios 0.\<close>

definition introspective_backend :: "int backend" where
  "introspective_backend =
     example_backend\<lparr>m_model := (m_model example_backend)\<lparr>get_methods :=
       (''get_attributes'', list_attributes_method) # get_methods (m_model example_backend)\<rparr>\<rparr>"

definition zero_ratio_backend :: "int backend" where
  "zero_ratio_backend = \<lparr>
     m_model = \<lparr>get_methods = [(''A'', echo_method)],
                named_attributes = [(''A_params'', ITensor (IntTensor [1, 0, 1, 0]))],
                training = False, on_device = CPU, invoked = []\<rparr>,
     m_loaded = 1, m_available_methods = [''A''], m_path = ''zero.ts'',
     m_device = CPU, m_use_gpu = False\<rparr>"

text \<open>An object on the example backend, with a list as circular buffer.\<close>

definition fifo_put :: "int list \<Rightarrow> int list \<Rightarrow> int list" where
  "fifo_put buf values = buf @ values"

definition fifo_get :: "int list \<Rightarrow> int list \<Rightarrow> nat \<Rightarrow> int list \<times> int list" where
  "fifo_get buf out n = (take n buf @ drop n out, drop n buf)"

definition example_object :: "(int, int list) nn_msg_tilde" where
  "example_object = \<lparr>m_backend = example_backend, m_method = ''A'', enable = True,
     m_buffer_size = 4, input_msg = [0], output_msg = [], m_out_buffer = [[]]\<rparr>"

lemmas example_defs = example_backend_def example_module_def example_env_def
  echo_method_def raising_method_def get_gain_method_def set_gain_method_def
  get_mode_method_def get_sr_method_def example_to_bool_def example_float_to_string_def
  Backend_MSG_def empty_module_def

lemmas eval_defs = get_method_params_def attr_def get_method_def invoke_def item_int_def
  checked_int_def size0_def upt_rec std_max_def word_sless_alt word_sle_eq
  is_loaded_def to_device_def eval_mode_def methods_with_params_def
  attributes_with_params_def int_to_string_def nat_to_string.simps digit_char_def Let_def

section \<open>Properties of \<open>power_ceil\<close>\<close>

lemma power_ceil_loop_bits:
  "2 ^ j \<le> unat y \<Longrightarrow> unat y < 2 ^ Suc j \<Longrightarrow> power_ceil_loop y p = push_bit j p"
proof (induction j arbitrary: y p)
  case 0
  then have "unat y = 1" by simp
  then have "y = 1" by (metis unat_1 word_unat_eq_iff)
  then show ?case by (subst power_ceil_loop.simps) simp
next
  case (Suc j)
  have half: "unat (drop_bit 1 y) = unat y div 2"
    unfolding unat_drop_bit_eq by (simp add: drop_bit_eq_div)
  from Suc.prems have lo: "2 ^ j \<le> unat (drop_bit 1 y)"
    and hi: "unat (drop_bit 1 y) < 2 ^ Suc j"
    unfolding half by simp_all
  from lo have "unat (drop_bit 1 y) \<noteq> 0"
    by (metis le_zero_eq power_not_zero zero_neq_numeral)
  then have nz: "drop_bit 1 y \<noteq> 0" by auto
  have "power_ceil_loop y p = power_ceil_loop (drop_bit 1 y) (push_bit 1 p)"
    using nz by (subst power_ceil_loop.simps) (simp add: Let_def)
  also have "\<dots> = push_bit j (push_bit 1 p)" by (rule Suc.IH [OF lo hi])
  also have "\<dots> = push_bit (Suc j) p" by (simp add: push_bit_push_bit)
  finally show ?case .
qed

lemma unat_push_bit_2:
  assumes "j < 31"
  shows "unat (push_bit j (2::32 word)) = 2 ^ Suc j"
proof -
  have "(2::nat) ^ Suc j < 2 ^ 32"
    using assms by (intro power_strict_increasing) simp_all
  then have "take_bit 32 ((2::nat) ^ Suc j) = 2 ^ Suc j"
    by (simp only: take_bit_nat_eq_self_iff)
  moreover have "unat (push_bit j (2::32 word)) = take_bit 32 (push_bit j (2::nat))"
    by (simp add: unsigned_push_bit_eq)
  moreover have "push_bit j (2::nat) = 2 ^ Suc j"
    by (simp add: push_bit_eq_mult)
  ultimately show ?thesis by simp
qed

lemma power_ceil_is_least:
  assumes "1 \<le> unat x" and "unat x \<le> 2 ^ 31"
  shows "\<exists>k. unat (power_ceil x) = 2 ^ k \<and> unat x \<le> 2 ^ k \<and>
             (\<forall>m. unat x \<le> 2 ^ m \<longrightarrow> (2::nat) ^ k \<le> 2 ^ m)"
proof (cases "x \<le> 1")
  case True
  then have "unat x \<le> 1" by (simp add: word_le_nat_alt)
  with assms have "unat x = 1" by simp
  with True have "unat (power_ceil x) = 2 ^ 0 \<and> unat x \<le> 2 ^ 0 \<and>
             (\<forall>m. unat x \<le> 2 ^ m \<longrightarrow> (2::nat) ^ 0 \<le> 2 ^ m)"
    by (simp add: power_ceil_def)
  then show ?thesis by blast
next
  case False
  then have gt: "1 < unat x" by (simp add: word_le_nat_alt not_le)
  then have "x \<noteq> 0" by auto
  then have pred: "unat (x - 1) = unat x - 1" by (rule unat_minus_one)
  from gt have "1 \<le> unat x - 1" by simp
  then obtain j where j: "2 ^ j \<le> unat x - 1" "unat x - 1 < 2 ^ (j + 1)"
    using ex_power_ivl1 [of 2 "unat x - 1"] by auto
  have pc: "power_ceil x = push_bit j 2"
    using False j by (simp add: power_ceil_def power_ceil_loop_bits pred)
  from j(1) assms(2) gt have "(2::nat) ^ j < 2 ^ 31" by simp
  then have j31: "j < 31"
    using power_less_imp_less_exp [of "2::nat" j 31] by simp
  from pc j31 have val: "unat (power_ceil x) = 2 ^ Suc j"
    by (simp only: unat_push_bit_2)
  have up: "unat x \<le> 2 ^ Suc j" using j(2) by simp
  have least: "(2::nat) ^ Suc j \<le> 2 ^ m" if "unat x \<le> 2 ^ m" for m
  proof -
    from that j(1) gt have "(2::nat) ^ j < 2 ^ m" by linarith
    then have "j < m"
      using power_less_imp_less_exp [of "2::nat" j m] by simp
    then have "Suc j \<le> m" by simp
    then show ?thesis by (rule power_increasing) simp
  qed
  from val up least show ?thesis by blast
qed

text \<open>
  C3 (amended). For every \<open>x\<close> with \<open>1 \<le> x \<le> 2 ^ 31\<close>, \<open>power_ceil x\<close> is the least power
  of two that is at least \<open>x\<close> (so a power of two is returned unchanged), and
  \<open>power_ceil 0 = power_ceil 1 = 1\<close>. The bound is needed: the next power of two above
  \<open>2 ^ 31\<close> does not fit the 32-bit result.
\<close>

theorem power_ceil_least_power_of_two:
  "power_ceil 0 = 1 \<and> power_ceil 1 = 1 \<and>
   (1 \<le> unat x \<and> unat x \<le> 2 ^ 31 \<longrightarrow>
      (\<exists>k. unat (power_ceil x) = 2 ^ k \<and> unat x \<le> 2 ^ k \<and>
           (\<forall>m. unat x \<le> 2 ^ m \<longrightarrow> (2::nat) ^ k \<le> 2 ^ m)))"
proof -
  have "power_ceil 0 = 1" "power_ceil 1 = 1"
    by (simp_all add: power_ceil_def)
  with power_ceil_is_least [of x] show ?thesis by blast
qed

theorem power_ceil_least_power_of_two_witness:
  "1 \<le> unat (10 :: 32 word) \<and> unat (10 :: 32 word) \<le> 2 ^ 31 \<and>
   (\<exists>k. unat (power_ceil 10) = 2 ^ k \<and> unat (10 :: 32 word) \<le> 2 ^ k \<and>
        (\<forall>m. unat (10 :: 32 word) \<le> 2 ^ m \<longrightarrow> (2::nat) ^ k \<le> 2 ^ m))"
  using power_ceil_least_power_of_two [of 10] by simp

text \<open>
  As the claim is written (every \<open>x \<ge> 1\<close>) it fails above \<open>2 ^ 31\<close>: at
  \<open>x = 2 ^ 31 + 1\<close> the shift runs off the word and the result is 0, which is below \<open>x\<close>.
\<close>

theorem power_ceil_above_2_31_counterexample:
  "power_ceil 2147483649 = 0 \<and>
   \<not> unat (2147483649 :: 32 word) \<le> unat (power_ceil 2147483649)"
proof -
  have "power_ceil 2147483649 = 0" by code_simp
  then show ?thesis by simp
qed


section \<open>Properties of the buffer size\<close>

text \<open>
  C2. With \<open>higher_ratio() \<ge> 1\<close>: a requested size of 0 yields \<open>higher_ratio()\<close>; a nonzero
  requested size below \<open>higher_ratio()\<close> yields \<open>higher_ratio()\<close> and one warning line; a
  requested size of at least \<open>higher_ratio()\<close> is replaced by \<open>power_ceil\<close> of it, without a
  warning. With \<open>higher_ratio() = 4\<close>, 3 gives 4 and 10 gives 16.
\<close>

theorem resolve_buffer_size_cases:
  "1 \<le>s hr \<longrightarrow>
     resolve_buffer_size 0 hr = (hr, []) \<and>
     (req \<noteq> 0 \<and> req <s hr \<longrightarrow>
        resolve_buffer_size req hr = (hr, [Buffer_size_too_small hr])) \<and>
     (hr \<le>s req \<longrightarrow> resolve_buffer_size req hr = (power_ceil req, [])) \<and>
     fst (resolve_buffer_size 3 4) = 4 \<and>
     fst (resolve_buffer_size 10 4) = 16"
proof -
  have "power_ceil 10 = 16" by code_simp
  then have ex: "fst (resolve_buffer_size 3 4) = 4" "fst (resolve_buffer_size 10 4) = 16"
    by (simp_all add: resolve_buffer_size_def)
  have nz: "req \<noteq> 0" if "1 \<le>s hr" "hr \<le>s req"
  proof
    assume "req = 0"
    with that have "1 \<le> sint hr" "sint hr \<le> 0" by (simp_all add: word_sle_eq)
    then show False by simp
  qed
  have ge: "\<not> req <s hr" if "hr \<le>s req"
    using that by (simp add: word_sle_eq word_sless_alt)
  show ?thesis
    using ex nz ge by (auto simp add: resolve_buffer_size_def)
qed

theorem resolve_buffer_size_cases_witness:
  "(1::32 word) \<le>s 4 \<and> (3::32 word) \<noteq> 0 \<and> (3::32 word) <s 4 \<and> (4::32 word) \<le>s 10 \<and>
   resolve_buffer_size 0 4 = (4, []) \<and>
   resolve_buffer_size 3 4 = (4, [Buffer_size_too_small 4]) \<and>
   resolve_buffer_size 10 4 = (power_ceil 10, []) \<and>
   power_ceil 10 = 16"
proof -
  have a: "(1::32 word) \<le>s 4" "(3::32 word) <s 4" "(4::32 word) \<le>s 10"
    by (simp_all add: word_sle_eq word_sless_alt)
  have "power_ceil 10 = 16" by code_simp
  with a resolve_buffer_size_cases [of 4 3] resolve_buffer_size_cases [of 4 10]
  show ?thesis by simp
qed

section \<open>Properties of \<open>get_higher_ratio\<close>\<close>

lemma sint_std_max: "sint (std_max a b) = max (sint a) (sint b)"
  by (simp add: std_max_def word_sless_alt max_def)

lemma Max_insert_max:
  fixes a b :: int
  assumes "finite S"
  shows "Max (insert (max a b) S) = Max (insert a (insert b S))"
proof (cases "S = {}")
  case True
  then show ?thesis by (simp add: max.commute)
next
  case False
  with assms show ?thesis by (simp add: max.assoc)
qed

lemma higher_ratio_loop_max:
  assumes "\<forall>method \<in> set methods.
             get_method_params env b method = [] \<or> length (get_method_params env b method) = 4"
  shows "\<exists>r. higher_ratio_loop env b methods hr = Some r \<and>
             sint r = Max (insert (sint hr)
               (usable_ratio env b ` {method \<in> set methods. get_method_params env b method \<noteq> []}))"
  using assms
proof (induction methods arbitrary: hr)
  case Nil
  then show ?case by simp
next
  case (Cons name names)
  let ?U = "usable_ratio env b ` {m \<in> set names. get_method_params env b m \<noteq> []}"
  have fin: "finite ?U" by simp
  from Cons.prems have rest: "\<forall>m \<in> set names.
      get_method_params env b m = [] \<or> length (get_method_params env b m) = 4" by simp
  show ?case
  proof (cases "get_method_params env b name = []")
    case True
    then have "{m \<in> set (name # names). get_method_params env b m \<noteq> []} =
               {m \<in> set names. get_method_params env b m \<noteq> []}" by auto
    with True Cons.IH [OF rest, of hr] show ?thesis by simp
  next
    case False
    with Cons.prems have len: "length (get_method_params env b name) = 4" by simp
    let ?hr = "std_max hr (std_max (get_method_params env b name ! 1)
                                   (get_method_params env b name ! 3))"
    have step: "higher_ratio_loop env b (name # names) hr =
                higher_ratio_loop env b names ?hr"
      using False len by (simp add: Let_def)
    have set_eq: "{m \<in> set (name # names). get_method_params env b m \<noteq> []} =
                  insert name {m \<in> set names. get_method_params env b m \<noteq> []}"
      using False by auto
    have "sint ?hr = max (sint hr) (usable_ratio env b name)"
      by (simp add: sint_std_max usable_ratio_def)
    then have "Max (insert (sint ?hr) ?U) = Max (insert (sint hr) (insert (usable_ratio env b name) ?U))"
      using Max_insert_max [OF fin] by simp
    with Cons.IH [OF rest, of ?hr] step set_eq show ?thesis by simp
  qed
qed

lemma example_params_A: "get_method_params example_env example_backend ''A'' = [1, 4, 1, 2]"
  by (simp add: example_defs eval_defs)

lemma example_params_B: "get_method_params example_env example_backend ''B'' = [1, 1, 1, 1]"
  by (simp add: example_defs eval_defs)

lemma example_catalog: "m_available_methods example_backend = [''A'', ''B'']"
  by (simp add: example_backend_def)

text \<open>
  C4 (amended). When every method of the catalog has parameters of no entry or of four,
  \<open>get_higher_ratio\<close> goes through the catalog, skips the methods without parameters, and
  returns the maximum of 1 and the ratios \<open>max(input_ratio, output_ratio)\<close> of the others:
  the running maximum starts at 1. So the result is at least 1, it is 1 when no method
  qualifies, and it is the maximum over the usable methods whenever one of them has a
  ratio of at least 1.
\<close>

theorem get_higher_ratio_max:
  "(\<forall>method \<in> set (m_available_methods b).
      get_method_params env b method = [] \<or> length (get_method_params env b method) = 4) \<longrightarrow>
   (\<exists>r. get_higher_ratio env b = Some r \<and> 1 \<le>s r \<and>
      sint r = Max (insert 1 (usable_ratio env b `
                 {method \<in> set (m_available_methods b). get_method_params env b method \<noteq> []})) \<and>
      ((\<forall>method \<in> set (m_available_methods b). get_method_params env b method = []) \<longrightarrow> r = 1))"
proof
  assume wf: "\<forall>method \<in> set (m_available_methods b).
      get_method_params env b method = [] \<or> length (get_method_params env b method) = 4"
  let ?U = "usable_ratio env b `
     {method \<in> set (m_available_methods b). get_method_params env b method \<noteq> []}"
  from higher_ratio_loop_max [OF wf, of 1]
  obtain r where r: "get_higher_ratio env b = Some r" "sint r = Max (insert 1 ?U)"
    by (auto simp add: get_higher_ratio_def)
  have "finite (insert 1 ?U)" by simp
  then have "1 \<le> Max (insert 1 ?U)" by (intro Max_ge) simp_all
  with r(2) have ge: "1 \<le>s r" by (simp add: word_sle_eq)
  have one: "r = 1" if "\<forall>method \<in> set (m_available_methods b). get_method_params env b method = []"
  proof -
    from that have "?U = {}" by auto
    with r(2) have "sint r = sint (1 :: 32 word)" by simp
    then show ?thesis by (simp only: signed_word_eqI)
  qed
  from r ge one show "\<exists>r. get_higher_ratio env b = Some r \<and> 1 \<le>s r \<and>
      sint r = Max (insert 1 ?U) \<and>
      ((\<forall>method \<in> set (m_available_methods b). get_method_params env b method = []) \<longrightarrow> r = 1)"
    by blast
qed

text \<open>
  The theorem on the example: over \<open>A:(1, 4, 1, 2)\<close> and \<open>B:(1, 1, 1, 1)\<close> the result
  is 4, and over the empty catalog of a fresh backend it is 1.
\<close>

theorem get_higher_ratio_max_witness:
  "get_method_params example_env example_backend ''A'' = [1, 4, 1, 2] \<and>
   get_method_params example_env example_backend ''B'' = [1, 1, 1, 1] \<and>
   get_higher_ratio example_env example_backend = Some 4 \<and>
   (1 :: 32 word) \<le>s 4 \<and>
   get_method_params example_env Backend_MSG ''A'' = [] \<and>
   get_higher_ratio example_env Backend_MSG = Some 1"
proof -
  have wf: "\<forall>method \<in> set (m_available_methods example_backend).
      get_method_params example_env example_backend method = [] \<or>
      length (get_method_params example_env example_backend method) = 4"
    by (simp add: example_catalog example_params_A example_params_B)
  have usable: "{method \<in> set (m_available_methods example_backend).
      get_method_params example_env example_backend method \<noteq> []} = {''A'', ''B''}"
    by (auto simp add: example_catalog example_params_A example_params_B)
  from get_higher_ratio_max [where env = example_env and b = example_backend] wf
  obtain r where r: "get_higher_ratio example_env example_backend = Some r" "1 \<le>s r"
    "sint r = Max (insert 1 (usable_ratio example_env example_backend `
       {method \<in> set (m_available_methods example_backend).
        get_method_params example_env example_backend method \<noteq> []}))"
    by blast
  from r(3) have "sint r = sint (4 :: 32 word)"
    unfolding usable by (simp add: usable_ratio_def example_params_A example_params_B)
  then have "r = 4" by (simp only: signed_word_eqI)
  with r have a: "get_higher_ratio example_env example_backend = Some 4" "(1 :: 32 word) \<le>s 4"
    by simp_all
  have e: "m_available_methods (Backend_MSG :: int backend) = []"
    by (simp add: Backend_MSG_def)
  then have n: "get_method_params example_env Backend_MSG ''A'' = []"
    by (simp add: get_method_params_def)
  from get_higher_ratio_max [where env = example_env and b = "Backend_MSG :: int backend"] e
  have b: "get_higher_ratio example_env Backend_MSG = Some 1" by auto
  from a b n example_params_A example_params_B show ?thesis by simp
qed

text \<open>
  As the claim is written (the maximum over the usable methods) it fails on a model whose
  only method declares the ratios 0: the maximum over the methods is 0 and the result
  is 1.
\<close>

theorem get_higher_ratio_zero_ratios_counterexample:
  "m_available_methods zero_ratio_backend = [''A''] \<and>
   get_method_params example_env zero_ratio_backend ''A'' = [1, 0, 1, 0] \<and>
   usable_ratio example_env zero_ratio_backend ''A'' = 0 \<and>
   get_higher_ratio example_env zero_ratio_backend = Some 1"
proof -
  have c: "m_available_methods zero_ratio_backend = [''A'']"
    by (simp add: zero_ratio_backend_def)
  have p: "get_method_params example_env zero_ratio_backend ''A'' = [1, 0, 1, 0]"
    by (simp add: zero_ratio_backend_def eval_defs)
  have u: "usable_ratio example_env zero_ratio_backend ''A'' = 0"
    by (simp add: usable_ratio_def p)
  have h: "get_higher_ratio example_env zero_ratio_backend = Some 1"
    by (simp add: get_higher_ratio_def c p std_max_def word_sless_alt)
  from c p u h show ?thesis by simp
qed

section \<open>Properties of \<open>perform\<close>\<close>



section \<open>Properties of \<open>load\<close> and \<open>reload\<close>\<close>

lemma invoke_keeps:
  "invoke m name inputs = (r, m') \<Longrightarrow>
     get_methods m' = get_methods m \<and> training m' = training m \<and> on_device m' = on_device m"
  by (auto simp add: invoke_def split: option.splits prod.splits)

lemma get_available_methods_keeps:
  assumes "get_available_methods b = (methods, b')"
  shows "get_methods (m_model b') = get_methods (m_model b) \<and>
         training (m_model b') = training (m_model b) \<and>
         on_device (m_model b') = on_device (m_model b) \<and>
         m_loaded b' = m_loaded b \<and> m_path b' = m_path b \<and> m_device b' = m_device b"
proof -
  obtain r m where inv: "invoke (m_model b) ''get_methods'' [] = (r, m)"
    by (cases "invoke (m_model b) ''get_methods'' []")
  from assms inv have "b' = b\<lparr>m_model := m\<rparr>"
    by (auto simp add: get_available_methods_def split: option.splits ivalue.splits prod.splits bool.splits)
  with invoke_keeps [OF inv] show ?thesis by simp
qed

lemma unloaded_catalog_initial:
  "m_loaded (Backend_MSG :: 'f backend) = 0 \<and> m_available_methods (Backend_MSG :: 'f backend) = []"
  by (simp add: Backend_MSG_def)

lemma unloaded_catalog_load:
  assumes "m_loaded b = 0 \<longrightarrow> m_available_methods b = []"
    and "m_loaded (snd (load env b path)) = 0"
  shows "m_available_methods (snd (load env b path)) = []"
proof (cases "jit_load env path")
  case None
  with assms show ?thesis by (simp add: load_def)
next
  case (Some loaded)
  let ?b1 = "b\<lparr>m_model := to_device (eval_mode loaded) (m_device b), m_loaded := 1\<rparr>"
  obtain methods b2 where g: "get_available_methods ?b1 = (methods, b2)"
    by (cases "get_available_methods ?b1")
  from get_available_methods_keeps [OF g] have "m_loaded b2 = 1" by simp
  with Some g assms(2) show ?thesis by (simp add: load_def Let_def)
qed

text \<open>
  The other functions that return a backend change its module only: the loaded flag and the
  catalog stay as \<open>load\<close> set them.
\<close>

lemma perform_keeps:
  "perform env b in_msg out_msg name = Inr (b', out_msg') \<Longrightarrow>
     m_loaded b' = m_loaded b \<and> m_available_methods b' = m_available_methods b"
  by (auto simp add: perform_def Let_def
           split: if_splits prod.splits option.splits ivalue.splits tensor.splits)

lemma get_attribute_keeps:
  "get_attribute b name = Inr (vs, b') \<Longrightarrow>
     m_loaded b' = m_loaded b \<and> m_available_methods b' = m_available_methods b"
  by (auto simp add: get_attribute_def Let_def
           split: prod.splits option.splits ivalue.splits)

lemma get_attribute_as_string_keeps:
  "get_attribute_as_string env b name = Inr (str, b') \<Longrightarrow>
     m_loaded b' = m_loaded b \<and> m_available_methods b' = m_available_methods b"
  by (auto simp add: get_attribute_as_string_def
           split: sum.splits prod.splits option.splits ivalue.splits
           dest: get_attribute_keeps)

lemma set_attribute_keeps:
  "set_attribute env b name args = Inr b' \<Longrightarrow>
     m_loaded b' = m_loaded b \<and> m_available_methods b' = m_available_methods b"
  by (auto simp add: set_attribute_def Let_def
           split: sum.splits prod.splits option.splits ivalue.splits if_splits)

lemma get_settable_attributes_keeps:
  "get_settable_attributes b = (names, b') \<Longrightarrow>
     m_loaded b' = m_loaded b \<and> m_available_methods b' = m_available_methods b"
  by (auto simp add: get_settable_attributes_def
           split: prod.splits option.splits ivalue.splits bool.splits)

text \<open>
  C6. \<open>load\<close> returns 1 and leaves the whole backend (model, loaded flag, path, catalog)
  as it was when the file cannot be loaded. When it can, \<open>load\<close> returns 0; the module
  put into \<open>m_model\<close> is the loaded one, already in evaluation mode and on \<open>m_device\<close>;
  the loaded flag is set; the catalog is what \<open>get_available_methods\<close> finds on the new
  model, and the path is stored. \<open>reload\<close> is \<open>load\<close> of the stored path, so a failed
  reload changes nothing.
\<close>

theorem load_status_and_state:
  "(jit_load env path = None \<longrightarrow> load env b path = (1, b) \<and> fst (load env b path) \<noteq> 0) \<and>
   (jit_load env path = Some loaded \<longrightarrow>
      (case get_available_methods (b\<lparr>m_model := to_device (eval_mode loaded) (m_device b), m_loaded := 1\<rparr>) of
         (methods, b2) \<Rightarrow> load env b path = (0, b2\<lparr>m_available_methods := methods, m_path := path\<rparr>)) \<and>
      fst (load env b path) = 0 \<and>
      is_loaded (snd (load env b path)) \<and>
      m_path (snd (load env b path)) = path \<and>
      get_methods (m_model (snd (load env b path))) = get_methods loaded \<and>
      training (m_model (snd (load env b path))) = False \<and>
      on_device (m_model (snd (load env b path))) = m_device b) \<and>
   reload env b = load env b (m_path b) \<and>
   (jit_load env (m_path b) = None \<longrightarrow> reload env b = (1, b))"
proof -
  have fail: "load env b p = (1, b)" if "jit_load env p = None" for p
    using that by (simp add: load_def)
  have ok: "(case get_available_methods (b\<lparr>m_model := to_device (eval_mode loaded) (m_device b), m_loaded := 1\<rparr>) of
         (methods, b2) \<Rightarrow> load env b path = (0, b2\<lparr>m_available_methods := methods, m_path := path\<rparr>)) \<and>
      fst (load env b path) = 0 \<and>
      is_loaded (snd (load env b path)) \<and>
      m_path (snd (load env b path)) = path \<and>
      get_methods (m_model (snd (load env b path))) = get_methods loaded \<and>
      training (m_model (snd (load env b path))) = False \<and>
      on_device (m_model (snd (load env b path))) = m_device b"
    if l: "jit_load env path = Some loaded"
  proof -
    let ?b1 = "b\<lparr>m_model := to_device (eval_mode loaded) (m_device b), m_loaded := 1\<rparr>"
    obtain methods b2 where g: "get_available_methods ?b1 = (methods, b2)"
      by (cases "get_available_methods ?b1")
    from l g have eq: "load env b path = (0, b2\<lparr>m_available_methods := methods, m_path := path\<rparr>)"
      by (simp add: load_def Let_def)
    from get_available_methods_keeps [OF g]
    have "get_methods (m_model b2) = get_methods loaded" "training (m_model b2) = False"
      "on_device (m_model b2) = m_device b" "m_loaded b2 = 1"
      by (simp_all add: to_device_def eval_mode_def)
    with eq g show ?thesis by (simp add: is_loaded_def)
  qed
  show ?thesis
    using fail [of path] fail [of "m_path b"] ok by (simp add: reload_def)
qed

lemma example_load: "load example_env Backend_MSG ''model.ts'' = (0, example_backend)"
  by (simp add: load_def get_available_methods_def example_defs eval_defs)

text \<open>
  The theorem on the example: a missing file, and \<open>model.ts\<close> loaded into a fresh
  backend.
\<close>

theorem load_status_and_state_witness:
  "jit_load example_env ''missing.ts'' = None \<and>
   load example_env example_backend ''missing.ts'' = (1, example_backend) \<and>
   jit_load example_env ''model.ts'' = Some example_module \<and>
   load example_env Backend_MSG ''model.ts'' = (0, example_backend) \<and>
   is_loaded (snd (load example_env Backend_MSG ''model.ts'')) \<and>
   m_path (snd (load example_env Backend_MSG ''model.ts'')) = ''model.ts'' \<and>
   training (m_model (snd (load example_env Backend_MSG ''model.ts''))) = False \<and>
   on_device (m_model (snd (load example_env Backend_MSG ''model.ts''))) = CPU \<and>
   m_available_methods (snd (load example_env Backend_MSG ''model.ts'')) = [''A'', ''B''] \<and>
   reload example_env (example_backend\<lparr>m_path := ''missing.ts''\<rparr>) =
     (1, example_backend\<lparr>m_path := ''missing.ts''\<rparr>)"
proof -
  have miss: "jit_load example_env ''missing.ts'' = None"
    and hit: "jit_load example_env ''model.ts'' = Some example_module"
    by (simp_all add: example_env_def)
  have dev: "m_device (Backend_MSG :: int backend) = CPU"
    by (simp add: Backend_MSG_def)
  have p: "m_path (example_backend\<lparr>m_path := ''missing.ts''\<rparr>) = ''missing.ts''" by simp
  from load_status_and_state [where env = example_env and path = "''missing.ts''" and b = example_backend] miss
  have a: "load example_env example_backend ''missing.ts'' = (1, example_backend)" by simp
  from load_status_and_state [where env = example_env and path = "''model.ts''" and b = Backend_MSG and loaded = example_module] hit dev
  have b: "is_loaded (snd (load example_env Backend_MSG ''model.ts''))"
    "m_path (snd (load example_env Backend_MSG ''model.ts'')) = ''model.ts''"
    "training (m_model (snd (load example_env Backend_MSG ''model.ts''))) = False"
    "on_device (m_model (snd (load example_env Backend_MSG ''model.ts''))) = CPU"
    by simp_all
  from load_status_and_state [where env = example_env and b = "example_backend\<lparr>m_path := ''missing.ts''\<rparr>"] miss p
  have c: "reload example_env (example_backend\<lparr>m_path := ''missing.ts''\<rparr>) =
     (1, example_backend\<lparr>m_path := ''missing.ts''\<rparr>)" by simp
  have d: "m_available_methods (snd (load example_env Backend_MSG ''model.ts'')) = [''A'', ''B'']"
    by (simp add: example_load) (simp add: example_backend_def)
  from miss hit a b c d example_load show ?thesis by simp
qed

section \<open>Properties of the attribute lists\<close>

lemma string_refs_strings: "string_refs (map IString names) = (names, True)"
  by (induction names) simp_all

lemma string_refs_reported:
  "string_refs vs = (ss, complete) \<Longrightarrow> s \<in> set ss \<Longrightarrow> IString s \<in> set vs"
  by (induction vs arbitrary: ss complete rule: string_refs.induct)
     (auto split: prod.splits)

lemma attributes_with_params_declared:
  "name \<in> set (attributes_with_params m) \<Longrightarrow>
     name \<in> fst ` set (named_attributes m) \<and> attr m (name @ ''_params'') \<noteq> None"
  by (auto simp add: attributes_with_params_def)

lemma get_settable_attributes_sound:
  assumes "name \<in> set (fst (get_settable_attributes b))"
  shows "(\<exists>vs. fst (invoke (m_model b) ''get_attributes'' []) = Some (IList vs) \<and> IString name \<in> set vs) \<or>
      (name \<in> fst ` set (named_attributes (m_model (snd (get_settable_attributes b)))) \<and>
       attr (m_model (snd (get_settable_attributes b))) (name @ ''_params'') \<noteq> None)"
proof -
  obtain r m where inv: "invoke (m_model b) ''get_attributes'' [] = (r, m)"
    by (cases "invoke (m_model b) ''get_attributes'' []")
  show ?thesis
  proof (cases "\<exists>vs. r = Some (IList vs)")
    case True
    then obtain vs where r: "r = Some (IList vs)" by blast
    obtain ss complete where sr: "string_refs vs = (ss, complete)"
      by (cases "string_refs vs")
    show ?thesis
    proof (cases complete)
      case True
      with inv r sr assms have "name \<in> set ss"
        by (simp add: get_settable_attributes_def)
      with sr inv r show ?thesis by (auto dest: string_refs_reported)
    next
      case False
      with inv r sr have res: "get_settable_attributes b = (ss @ attributes_with_params m, b\<lparr>m_model := m\<rparr>)"
        by (simp add: get_settable_attributes_def)
      with assms have "name \<in> set ss \<or> name \<in> set (attributes_with_params m)" by simp
      then show ?thesis
      proof
        assume "name \<in> set ss"
        with sr inv r show ?thesis by (auto dest: string_refs_reported)
      next
        assume "name \<in> set (attributes_with_params m)"
        with res show ?thesis by (simp add: attributes_with_params_declared)
      qed
    qed
  next
    case False
    with inv have res: "get_settable_attributes b = (attributes_with_params m, b\<lparr>m_model := m\<rparr>)"
      by (auto simp add: get_settable_attributes_def split: option.splits ivalue.splits)
    with assms show ?thesis by (simp add: attributes_with_params_declared)
  qed
qed

text \<open>
  C7 (amended). On a loaded backend, \<open>get_settable_attributes\<close> first calls the model's \<open>get_attributes\<close>: a
  list of strings is returned as it is. When the model has no such method the result is
  the scan, the declared attributes that have a \<open>_params\<close> attribute of their name. In
  every case a name it returns was reported by \<open>get_attributes\<close>, or is a declared
  attribute with a \<open>_params\<close> attribute. \<open>get_available_attributes\<close> does neither: it
  returns the names of all declared attributes.
\<close>

theorem settable_and_available_attributes:
  "is_loaded b \<longrightarrow>
   get_available_attributes b = map fst (named_attributes (m_model b)) \<and>
   (get_method (m_model b) ''get_attributes'' = None \<longrightarrow>
      get_settable_attributes b = (attributes_with_params (m_model b), b)) \<and>
   (invoke (m_model b) ''get_attributes'' [] = (Some (IList (map IString names)), m) \<longrightarrow>
      get_settable_attributes b = (names, b\<lparr>m_model := m\<rparr>)) \<and>
   (\<forall>name \<in> set (fst (get_settable_attributes b)).
      (\<exists>vs. fst (invoke (m_model b) ''get_attributes'' []) = Some (IList vs) \<and> IString name \<in> set vs) \<or>
      (name \<in> fst ` set (named_attributes (m_model (snd (get_settable_attributes b)))) \<and>
       attr (m_model (snd (get_settable_attributes b))) (name @ ''_params'') \<noteq> None))"
proof -
  have a: "get_available_attributes b = map fst (named_attributes (m_model b))"
    by (simp add: get_available_attributes_def)
  have f: "get_settable_attributes b = (attributes_with_params (m_model b), b)"
    if "get_method (m_model b) ''get_attributes'' = None"
    using that by (simp add: get_settable_attributes_def invoke_def)
  have g: "get_settable_attributes b = (names, b\<lparr>m_model := m\<rparr>)"
    if "invoke (m_model b) ''get_attributes'' [] = (Some (IList (map IString names)), m)"
    using that by (simp add: get_settable_attributes_def string_refs_strings)
  from a f g get_settable_attributes_sound show ?thesis by blast
qed

text \<open>
  The theorem on the example: the scan of the example backend, and a backend whose module
  answers \<open>get_attributes\<close>.
\<close>

theorem settable_and_available_attributes_witness:
  "is_loaded example_backend \<and> is_loaded introspective_backend \<and>
   get_method (m_model example_backend) ''get_attributes'' = None \<and>
   get_settable_attributes example_backend = ([''gain'', ''locked'', ''mode''], example_backend) \<and>
   invoke (m_model introspective_backend) ''get_attributes'' [] =
     (Some (IList (map IString [''gain''])),
      (m_model introspective_backend)\<lparr>invoked := [''get_attributes'']\<rparr>) \<and>
   get_settable_attributes introspective_backend =
     ([''gain''],
      introspective_backend\<lparr>m_model := (m_model introspective_backend)\<lparr>invoked := [''get_attributes'']\<rparr>\<rparr>) \<and>
   get_available_attributes example_backend =
     [''A_params'', ''B_params'', ''gain'', ''gain_params'', ''locked'', ''locked_params'',
      ''mode'', ''mode_params'', ''sr'']"
proof -
  have none: "get_method (m_model example_backend) ''get_attributes'' = None"
    by (simp add: example_defs eval_defs)
  have scan: "attributes_with_params (m_model example_backend) = [''gain'', ''locked'', ''mode'']"
    by (simp add: example_defs eval_defs)
  have inv: "invoke (m_model introspective_backend) ''get_attributes'' [] =
     (Some (IList (map IString [''gain''])),
      (m_model introspective_backend)\<lparr>invoked := [''get_attributes'']\<rparr>)"
    by (simp add: introspective_backend_def list_attributes_method_def example_defs eval_defs)
  have av: "map fst (named_attributes (m_model example_backend)) =
     [''A_params'', ''B_params'', ''gain'', ''gain_params'', ''locked'', ''locked_params'',
      ''mode'', ''mode_params'', ''sr'']"
    by (simp add: example_defs)
  have loaded: "is_loaded example_backend" "is_loaded introspective_backend"
    by (simp_all add: introspective_backend_def example_backend_def is_loaded_def)
  from settable_and_available_attributes [where b = example_backend] loaded none scan av
  have a: "get_settable_attributes example_backend = ([''gain'', ''locked'', ''mode''], example_backend)"
    "get_available_attributes example_backend =
     [''A_params'', ''B_params'', ''gain'', ''gain_params'', ''locked'', ''locked_params'',
      ''mode'', ''mode_params'', ''sr'']"
    by simp_all
  from settable_and_available_attributes [where b = introspective_backend
      and names = "[''gain'']"
      and m = "(m_model introspective_backend)\<lparr>invoked := [''get_attributes'']\<rparr>"]
    loaded inv
  have b: "get_settable_attributes introspective_backend =
     ([''gain''],
      introspective_backend\<lparr>m_model := (m_model introspective_backend)\<lparr>invoked := [''get_attributes'']\<rparr>\<rparr>)"
    by blast
  from loaded none a inv b show ?thesis by simp
qed

text \<open>
  As the claim is written it fails for \<open>get_available_attributes\<close>: on the example it
  returns \<open>sr\<close>, which no \<open>get_attributes\<close> reports (the model has no such method) and
  which has no \<open>sr_params\<close>.
\<close>

theorem available_attributes_unfiltered_counterexample:
  "is_loaded example_backend \<and>
   ''sr'' \<in> set (get_available_attributes example_backend) \<and>
   get_method (m_model example_backend) ''get_attributes'' = None \<and>
   fst (invoke (m_model example_backend) ''get_attributes'' []) = None \<and>
   attr (m_model example_backend) ''sr_params'' = None"
  by (simp add: get_available_attributes_def example_defs eval_defs)

section \<open>Properties of the audio callback\<close>

lemma zero_frames_length:
  "length (fold (\<lambda>i out. out[i := 0]) [0..<n] out) = length out"
  by (induction n) simp_all

lemma zero_frames_nth:
  "i < length out \<Longrightarrow>
     fold (\<lambda>i out. out[i := 0]) [0..<n] out ! i = (if i < n then 0 else out ! i)"
  by (induction n) (simp_all add: zero_frames_length nth_list_update less_Suc_eq)

lemma zero_frames_full:
  fixes out :: "'d::zero list"
  assumes "length out = n"
  shows "fold (\<lambda>i out. out[i := 0]) [0..<n] out = replicate n 0"
  using assms by (intro nth_equalityI) (simp_all add: zero_frames_length zero_frames_nth)

lemma each_channel_length:
  "length (fold (\<lambda>c s. s[c := g (s ! c)]) [0..<k] s) = length s"
  by (induction k) simp_all

lemma each_channel_nth:
  "c < length s \<Longrightarrow>
     fold (\<lambda>c s. s[c := g (s ! c)]) [0..<k] s ! c = (if c < k then g (s ! c) else s ! c)"
proof (induction k)
  case 0
  then show ?case by simp
next
  case (Suc k)
  show ?case
  proof (cases "c = k")
    case True
    with Suc.prems have "fold (\<lambda>c s. s[c := g (s ! c)]) [0..<k] s ! k = s ! k"
      using Suc.IH by simp
    with True Suc.prems show ?thesis by (simp add: each_channel_length)
  next
    case False
    with Suc show ?thesis by (simp add: each_channel_length less_Suc_eq)
  qed
qed

lemma each_channel:
  "fold (\<lambda>c s. s[c := g (s ! c)]) [0..<length s] s = map g s"
  by (intro nth_equalityI) (simp_all add: each_channel_length each_channel_nth)

lemma fill_with_zero_samples:
  fixes outp :: "'d::zero audio_bundle"
  assumes "\<forall>out \<in> set (samples outp). length out = frame_count outp"
  shows "samples (fill_with_zero outp) =
           replicate (channel_count outp) (replicate (frame_count outp) 0)"
proof -
  have "samples (fill_with_zero outp) =
      map (\<lambda>out. fold (\<lambda>i out. out[i := 0]) [0..<frame_count outp] out) (samples outp)"
    by (simp add: fill_with_zero_def channel_count_def each_channel)
  also have "\<dots> = map (\<lambda>out. replicate (frame_count outp) 0) (samples outp)"
    using assms by (intro map_cong refl zero_frames_full) simp
  also have "\<dots> = replicate (channel_count outp) (replicate (frame_count outp) 0)"
    by (simp add: channel_count_def map_replicate_const)
  finally show ?thesis .
qed

text \<open>
  C10. On a well-formed output block: when no model is loaded or the object is disabled,
  the callback returns the object as it was (so no method of the model was run) and the
  block with every sample of every channel zero. When the model is loaded and enabled and
  the frame count exceeds the buffer size, the callback clears \<open>enable\<close>, changes nothing
  else, and returns the block zero-filled; and the next callback, on any block, finds the
  object disabled and zero-fills again.
\<close>

theorem call_operator_zero_fill:
  fixes outp next_out :: "'d::zero audio_bundle"
  shows
  "(\<forall>out \<in> set (samples outp). length out = frame_count outp) \<longrightarrow>
   ((\<not> is_loaded (m_backend obj) \<or> \<not> enable obj \<longrightarrow>
       call_operator env cb_put cb_get obj inp outp = Inr (obj, fill_with_zero outp, []) \<and>
       samples (fill_with_zero outp) =
         replicate (channel_count outp) (replicate (frame_count outp) 0)) \<and>
    (is_loaded (m_backend obj) \<and> enable obj \<and> sint (m_buffer_size obj) < int (frame_count outp) \<longrightarrow>
       call_operator env cb_put cb_get obj inp outp =
         Inr (obj\<lparr>enable := False\<rparr>, fill_with_zero outp,
              [Vector_size_larger (frame_count outp) (m_buffer_size obj)]) \<and>
       samples (fill_with_zero outp) =
         replicate (channel_count outp) (replicate (frame_count outp) 0) \<and>
       invoked (m_model (m_backend (obj\<lparr>enable := False\<rparr>))) = invoked (m_model (m_backend obj)) \<and>
       call_operator env cb_put cb_get (obj\<lparr>enable := False\<rparr>) next_in next_out =
         Inr (obj\<lparr>enable := False\<rparr>, fill_with_zero next_out, [])))"
proof
  assume wf: "\<forall>out \<in> set (samples outp). length out = frame_count outp"
  have z: "samples (fill_with_zero outp) =
         replicate (channel_count outp) (replicate (frame_count outp) 0)"
    using wf by (rule fill_with_zero_samples)
  have off: "call_operator env cb_put cb_get obj inp outp = Inr (obj, fill_with_zero outp, [])"
    if "\<not> is_loaded (m_backend obj) \<or> \<not> enable obj"
    using that by (auto simp add: call_operator_def)
  have big: "call_operator env cb_put cb_get obj inp outp =
         Inr (obj\<lparr>enable := False\<rparr>, fill_with_zero outp,
              [Vector_size_larger (frame_count outp) (m_buffer_size obj)])"
    if "is_loaded (m_backend obj)" "enable obj" "sint (m_buffer_size obj) < int (frame_count outp)"
    using that by (simp add: call_operator_def)
  have later: "call_operator env cb_put cb_get (obj\<lparr>enable := False\<rparr>) next_in next_out =
         Inr (obj\<lparr>enable := False\<rparr>, fill_with_zero next_out, [])"
    by (simp add: call_operator_def)
  from z off big later
  show "(\<not> is_loaded (m_backend obj) \<or> \<not> enable obj \<longrightarrow>
       call_operator env cb_put cb_get obj inp outp = Inr (obj, fill_with_zero outp, []) \<and>
       samples (fill_with_zero outp) =
         replicate (channel_count outp) (replicate (frame_count outp) 0)) \<and>
    (is_loaded (m_backend obj) \<and> enable obj \<and> sint (m_buffer_size obj) < int (frame_count outp) \<longrightarrow>
       call_operator env cb_put cb_get obj inp outp =
         Inr (obj\<lparr>enable := False\<rparr>, fill_with_zero outp,
              [Vector_size_larger (frame_count outp) (m_buffer_size obj)]) \<and>
       samples (fill_with_zero outp) =
         replicate (channel_count outp) (replicate (frame_count outp) 0) \<and>
       invoked (m_model (m_backend (obj\<lparr>enable := False\<rparr>))) = invoked (m_model (m_backend obj)) \<and>
       call_operator env cb_put cb_get (obj\<lparr>enable := False\<rparr>) next_in next_out =
         Inr (obj\<lparr>enable := False\<rparr>, fill_with_zero next_out, []))"
    by simp
qed

text \<open>
  The theorem on the example: a disabled object, an object with a fresh backend, and a
  block of five frames against a buffer of four.
\<close>

theorem call_operator_zero_fill_witness:
  "\<not> enable (example_object\<lparr>enable := False\<rparr>) \<and>
   call_operator example_env fifo_put fifo_get (example_object\<lparr>enable := False\<rparr>)
       \<lparr>samples = [[1, 2]], frame_count = 2\<rparr> \<lparr>samples = [[5, 6], [7, 8]], frame_count = 2\<rparr> =
     Inr (example_object\<lparr>enable := False\<rparr>, \<lparr>samples = [[0, 0], [0, 0]], frame_count = 2\<rparr>, []) \<and>
   \<not> is_loaded (m_backend (example_object\<lparr>m_backend := Backend_MSG\<rparr>)) \<and>
   call_operator example_env fifo_put fifo_get (example_object\<lparr>m_backend := Backend_MSG\<rparr>)
       \<lparr>samples = [[1, 2]], frame_count = 2\<rparr> \<lparr>samples = [[5, 6], [7, 8]], frame_count = 2\<rparr> =
     Inr (example_object\<lparr>m_backend := Backend_MSG\<rparr>, \<lparr>samples = [[0, 0], [0, 0]], frame_count = 2\<rparr>, []) \<and>
   is_loaded (m_backend example_object) \<and> enable example_object \<and>
   sint (m_buffer_size example_object) < int (frame_count \<lparr>samples = [[1, 2, 3, 4, 5]], frame_count = 5\<rparr>) \<and>
   call_operator example_env fifo_put fifo_get example_object
       \<lparr>samples = [[1, 2, 3, 4, 5]], frame_count = 5\<rparr> \<lparr>samples = [[1, 2, 3, 4, 5]], frame_count = 5\<rparr> =
     Inr (example_object\<lparr>enable := False\<rparr>, \<lparr>samples = [[0, 0, 0, 0, 0]], frame_count = 5\<rparr>,
          [Vector_size_larger 5 4]) \<and>
   call_operator example_env fifo_put fifo_get (example_object\<lparr>enable := False\<rparr>)
       \<lparr>samples = [[1, 2]], frame_count = 2\<rparr> \<lparr>samples = [[5, 6]], frame_count = 2\<rparr> =
     Inr (example_object\<lparr>enable := False\<rparr>, \<lparr>samples = [[0, 0]], frame_count = 2\<rparr>, [])"
proof -
  let ?small = "\<lparr>samples = [[5, 6], [7, 8]], frame_count = 2\<rparr> :: int audio_bundle"
  let ?big = "\<lparr>samples = [[1, 2, 3, 4, 5]], frame_count = 5\<rparr> :: int audio_bundle"
  let ?next = "\<lparr>samples = [[5, 6]], frame_count = 2\<rparr> :: int audio_bundle"
  let ?inp = "\<lparr>samples = [[1, 2]], frame_count = 2\<rparr> :: int audio_bundle"
  have wf: "\<forall>out \<in> set (samples ?small). length out = frame_count ?small"
    "\<forall>out \<in> set (samples ?big). length out = frame_count ?big"
    by simp_all
  have z: "fill_with_zero ?small = \<lparr>samples = [[0, 0], [0, 0]], frame_count = 2\<rparr>"
    "fill_with_zero ?big = \<lparr>samples = [[0, 0, 0, 0, 0]], frame_count = 5\<rparr>"
    "fill_with_zero ?next = \<lparr>samples = [[0, 0]], frame_count = 2\<rparr>"
    by (simp_all add: fill_with_zero_def channel_count_def upt_rec)
  have st: "\<not> enable (example_object\<lparr>enable := False\<rparr>)"
    "\<not> is_loaded (m_backend (example_object\<lparr>m_backend := Backend_MSG\<rparr>))"
    "is_loaded (m_backend example_object)" "enable example_object"
    "sint (m_buffer_size example_object) < int (frame_count ?big)"
    by (simp_all add: example_object_def is_loaded_def Backend_MSG_def example_backend_def)
  from call_operator_zero_fill [where outp = ?small and obj = "example_object\<lparr>enable := False\<rparr>"
      and env = example_env and cb_put = fifo_put and cb_get = fifo_get and inp = ?inp] wf(1) st(1)
  have a: "call_operator example_env fifo_put fifo_get (example_object\<lparr>enable := False\<rparr>) ?inp ?small =
     Inr (example_object\<lparr>enable := False\<rparr>, \<lparr>samples = [[0, 0], [0, 0]], frame_count = 2\<rparr>, [])"
    by (simp add: z)
  from call_operator_zero_fill [where outp = ?small and obj = "example_object\<lparr>m_backend := Backend_MSG\<rparr>"
      and env = example_env and cb_put = fifo_put and cb_get = fifo_get and inp = ?inp] wf(1) st(2)
  have b: "call_operator example_env fifo_put fifo_get (example_object\<lparr>m_backend := Backend_MSG\<rparr>) ?inp ?small =
     Inr (example_object\<lparr>m_backend := Backend_MSG\<rparr>, \<lparr>samples = [[0, 0], [0, 0]], frame_count = 2\<rparr>, [])"
    by (simp add: z)
  from call_operator_zero_fill [where outp = ?big and obj = example_object
      and env = example_env and cb_put = fifo_put and cb_get = fifo_get and inp = ?big
      and next_in = ?inp and next_out = ?next] wf(2) st(3,4,5)
  have c: "call_operator example_env fifo_put fifo_get example_object ?big ?big =
     Inr (example_object\<lparr>enable := False\<rparr>, \<lparr>samples = [[0, 0, 0, 0, 0]], frame_count = 5\<rparr>,
          [Vector_size_larger 5 4])"
    "call_operator example_env fifo_put fifo_get (example_object\<lparr>enable := False\<rparr>) ?inp ?next =
     Inr (example_object\<lparr>enable := False\<rparr>, \<lparr>samples = [[0, 0]], frame_count = 2\<rparr>, [])"
    by (simp_all add: z example_object_def)
  from st a b c show ?thesis by simp
qed

section \<open>Properties of \<open>get_attribute_as_string\<close>\<close>

lemma those_Some_length: "those xs = Some ys \<Longrightarrow> length ys = length xs"
  by (induction xs arbitrary: ys) (auto split: option.splits)

lemma those_None_iff: "those xs = None \<longleftrightarrow> None \<in> set xs"
  by (induction xs) (auto split: option.splits)

lemma those_Some_nth: "those xs = Some ys \<Longrightarrow> i < length xs \<Longrightarrow> xs ! i = Some (ys ! i)"
  by (induction xs arbitrary: ys i) (auto split: option.splits simp add: nth_Cons')

lemma join_space_Cons:
  "join_space (str # strs) = str @ (if strs = [] then [] else '' '' @ join_space strs)"
  by (cases strs) simp_all

lemma format_field_value:
  assumes "i < length outs"
  shows "format_field env tag outs i =
     (case format_value env tag (outs ! i) of
        Some s \<Rightarrow> Inr s
      | None \<Rightarrow> Inl (if tag = 0 \<or> tag = 1 \<or> tag = 2 \<or> tag = 3 then Torch_error
                     else Bad_type_id tag i))"
  using assms by (simp add: format_field_def format_value_def split: ivalue.splits)

lemma attr_string_loop_fields:
  assumes "n = size0 t" and "n \<le> length outs"
  shows "those (map (formatted_field env t outs) [k..<n]) = Some strs \<Longrightarrow>
           attr_string_loop env outs t [k..<n] cur = Inr (cur @ join_space strs)"
proof (induction "n - k" arbitrary: k cur strs)
  case 0
  then show ?case by simp
next
  case (Suc d)
  then have kn: "k < n" and d: "d = n - Suc k" by simp_all
  from kn have upt: "[k..<n] = k # [Suc k..<n]" by (rule upt_conv_Cons)
  from Suc.prems upt obtain f fs where
    f: "formatted_field env t outs k = Some f" and
    fs: "those (map (formatted_field env t outs) [Suc k..<n]) = Some fs" and
    strs: "strs = f # fs"
    by (auto split: option.splits)
  from f obtain tag where tag: "item_int env t k = Some tag"
    and fv: "format_value env tag (outs ! k) = Some f"
    by (auto simp add: formatted_field_def split: option.splits)
  from kn assms have "k < length outs" by simp
  then have ff: "format_field env tag outs k = Inr f"
    using fv by (simp add: format_field_value)
  have sep: "(k < size0 t - 1) = (fs \<noteq> [])"
  proof -
    from fs have "length fs = length [Suc k..<n]"
      using those_Some_length by fastforce
    then have "length fs = size0 t - Suc k" using assms(1) by simp
    moreover have "(fs \<noteq> []) = (0 < length fs)" by simp
    ultimately show ?thesis by linarith
  qed
  have "attr_string_loop env outs t [k..<n] cur =
        attr_string_loop env outs t [Suc k..<n] (cur @ f @ (if fs \<noteq> [] then '' '' else ''''))"
    using upt tag ff sep by simp
  also have "\<dots> = Inr ((cur @ f @ (if fs \<noteq> [] then '' '' else '''')) @ join_space fs)"
    by (rule Suc.hyps(1) [OF d fs])
  also have "\<dots> = Inr (cur @ join_space strs)"
    by (simp add: strs join_space_Cons)
  finally show ?case .
qed

lemma attr_string_loop_fails:
  assumes "n = size0 t" and "n \<le> length outs"
  shows "those (map (formatted_field env t outs) [k..<n]) = None \<Longrightarrow>
           isl (attr_string_loop env outs t [k..<n] cur) \<and>
           attr_string_loop env outs t [k..<n] cur \<noteq> Inl Out_of_range"
proof (induction "n - k" arbitrary: k cur)
  case 0
  then show ?case by simp
next
  case (Suc d)
  then have kn: "k < n" and d: "d = n - Suc k" by simp_all
  from kn have upt: "[k..<n] = k # [Suc k..<n]" by (rule upt_conv_Cons)
  from kn assms have len: "k < length outs" by simp
  show ?case
  proof (cases "formatted_field env t outs k")
    case None
    then show ?thesis
      using upt len
      by (auto simp add: formatted_field_def format_field_value split: option.splits)
  next
    case (Some f)
    with Suc.prems upt have rest: "those (map (formatted_field env t outs) [Suc k..<n]) = None"
      by (auto split: option.splits)
    from Some obtain tag where tag: "item_int env t k = Some tag"
      and fv: "format_value env tag (outs ! k) = Some f"
      by (auto simp add: formatted_field_def split: option.splits)
    have ff: "format_field env tag outs k = Inr f"
      using fv len by (simp add: format_field_value)
    from Suc.hyps(1) [OF d rest] show ?thesis
      using upt tag ff by simp
  qed
qed


lemma unknown_tag_unformatted:
  assumes "i < size0 t" and "item_int env t i = Some tag"
    and "tag \<noteq> 0 \<and> tag \<noteq> 1 \<and> tag \<noteq> 2 \<and> tag \<noteq> 3"
  shows "those (map (formatted_field env t outs) [0..<size0 t]) = None"
proof -
  from assms(2,3) have "formatted_field env t outs i = None"
    by (simp add: formatted_field_def format_value_def)
  with assms(1) have "None \<in> set (map (formatted_field env t outs) [0..<size0 t])"
    by (metis (no_types, lifting) add_0 diff_zero length_map length_upt nth_map nth_mem nth_upt)
  then show ?thesis by (simp only: those_None_iff)
qed

text \<open>
  C5. \<open>get_attribute_as_string\<close> fails as \<open>get_attribute\<close> fails. When the getter gave
  its values: without a \<open>_params\<close> tensor of the attribute's name it fails with the
  "parameters not found" error. With a schema no longer than the values: when every
  position \<open>i\<close> formats (its tag is one of the four and the \<open>i\<close>-th value is of the tag's
  type) the result is the fields \<open>formatted_field\<close>, the \<open>i\<close>-th value formatted by the
  \<open>i\<close>-th tag, joined by single spaces with none after the last; and a tag that is none of
  the four makes it fail.
\<close>

theorem get_attribute_as_string_format:
  "(get_attribute b name = Inl e \<longrightarrow> get_attribute_as_string env b name = Inl e) \<and>
   (get_attribute b name = Inr (outs, b1) \<longrightarrow>
      ((\<nexists>t. attr (m_model b1) (name @ ''_params'') = Some (ITensor t)) \<longrightarrow>
         get_attribute_as_string env b name = Inl (Params_not_found name)) \<and>
      (attr (m_model b1) (name @ ''_params'') = Some (ITensor t) \<and> size0 t \<le> length outs \<longrightarrow>
         (those (map (formatted_field env t outs) [0..<size0 t]) = Some strs \<longrightarrow>
            get_attribute_as_string env b name = Inr (join_space strs, b1)) \<and>
         (i < size0 t \<and> item_int env t i = Some tag \<and>
          tag \<noteq> 0 \<and> tag \<noteq> 1 \<and> tag \<noteq> 2 \<and> tag \<noteq> 3 \<longrightarrow>
            isl (get_attribute_as_string env b name) \<and>
            get_attribute_as_string env b name \<noteq> Inl Out_of_range)))"
proof -
  have getter: "get_attribute_as_string env b name = Inl e" if "get_attribute b name = Inl e"
    using that by (simp add: get_attribute_as_string_def)
  have schema: "get_attribute_as_string env b name = Inl (Params_not_found name)"
    if "get_attribute b name = Inr (outs, b1)"
      and "\<nexists>t. attr (m_model b1) (name @ ''_params'') = Some (ITensor t)"
    using that by (auto simp add: get_attribute_as_string_def split: option.splits ivalue.splits)
  have ok: "get_attribute_as_string env b name = Inr (join_space strs, b1)"
    if "get_attribute b name = Inr (outs, b1)"
      and "attr (m_model b1) (name @ ''_params'') = Some (ITensor t)"
      and "size0 t \<le> length outs"
      and "those (map (formatted_field env t outs) [0..<size0 t]) = Some strs"
    using that attr_string_loop_fields [OF refl that(3) that(4), of "[]"]
    by (simp add: get_attribute_as_string_def)
  have bad: "isl (get_attribute_as_string env b name) \<and>
            get_attribute_as_string env b name \<noteq> Inl Out_of_range"
    if g: "get_attribute b name = Inr (outs, b1)"
      and a: "attr (m_model b1) (name @ ''_params'') = Some (ITensor t)"
      and len: "size0 t \<le> length outs"
      and i: "i < size0 t" "item_int env t i = Some tag"
         "tag \<noteq> 0 \<and> tag \<noteq> 1 \<and> tag \<noteq> 2 \<and> tag \<noteq> 3"
  proof -
    from unknown_tag_unformatted [OF i]
    have "those (map (formatted_field env t outs) [0..<size0 t]) = None" .
    from attr_string_loop_fails [OF refl len this, of "[]"] g a
    show ?thesis
      by (auto simp add: get_attribute_as_string_def split: sum.splits)
  qed
  from getter schema ok bad show ?thesis by blast
qed

lemma example_set_gain: "set_attribute example_env example_backend ''gain'' [''true'', ''3'', ''1.5'', ''hello''] =
   Inr (example_backend\<lparr>m_model := gain_set_module\<rparr>)"
  by (simp add: set_attribute_def setter_input_def gain_set_module_def gain_values_def example_defs eval_defs)

lemma example_get_gain: "get_attribute (example_backend\<lparr>m_model := gain_set_module\<rparr>) ''gain'' =
   Inr (gain_values, example_backend\<lparr>m_model := gain_set_module\<lparr>invoked := [''get_gain'', ''get_gain'', ''set_gain'']\<rparr>\<rparr>)"
  by (simp add: get_attribute_def gain_set_module_def gain_values_def example_defs eval_defs)

lemma example_float_string: "example_float_to_string 1500000 = ''1.500000''"
  by (simp add: example_float_to_string_def eval_defs)

lemma example_gain_fields:
  "those (map (formatted_field example_env (IntTensor [0, 1, 2, 3]) gain_values) [0..<size0 (IntTensor [0, 1, 2, 3] :: int tensor)]) =
     Some [''true'', ''3'', ''1.500000'', ''hello'']"
  by (simp add: formatted_field_def format_value_def gain_values_def example_float_string example_env_def eval_defs)

lemma example_get_mode: "get_attribute example_backend ''mode'' =
   Inr ([IInt 1], example_backend\<lparr>m_model := (m_model example_backend)\<lparr>invoked := [''get_mode'', ''get_mode'', ''get_mode'']\<rparr>\<rparr>)"
  by (simp add: get_attribute_def example_defs eval_defs)

lemma example_get_sr: "get_attribute example_backend ''sr'' =
   Inr ([IInt 44100], example_backend\<lparr>m_model := (m_model example_backend)\<lparr>invoked := [''get_sr'', ''get_sr'', ''get_sr'']\<rparr>\<rparr>)"
  by (simp add: get_attribute_def example_defs eval_defs)

lemma example_get_locked: "get_attribute example_backend ''locked'' = Inl (Getter_not_found ''locked'')"
  by (simp add: get_attribute_def example_defs eval_defs)

text \<open>
  The theorem on the example. Setting \<open>gain\<close> to \<open>true 3 1.5 hello\<close> against the schema
  \<open>[bool, int, float, string]\<close> and reading it as a string gives
  \<open>true 3 1.500000 hello\<close>; \<open>locked\<close> has no getter, \<open>sr\<close> no schema, and the schema
  of \<open>mode\<close> holds the tag 7.
\<close>

theorem get_attribute_as_string_format_witness:
  "set_attribute example_env example_backend ''gain'' [''true'', ''3'', ''1.5'', ''hello''] =
     Inr (example_backend\<lparr>m_model := gain_set_module\<rparr>) \<and>
   get_attribute (example_backend\<lparr>m_model := gain_set_module\<rparr>) ''gain'' =
     Inr ([IBool True, IInt 3, IDouble 1500000, IString ''hello''],
          example_backend\<lparr>m_model := gain_set_module\<lparr>invoked := [''get_gain'', ''get_gain'', ''set_gain'']\<rparr>\<rparr>) \<and>
   get_attribute_as_string example_env (example_backend\<lparr>m_model := gain_set_module\<rparr>) ''gain'' =
     Inr (''true 3 1.500000 hello'',
          example_backend\<lparr>m_model := gain_set_module\<lparr>invoked := [''get_gain'', ''get_gain'', ''set_gain'']\<rparr>\<rparr>) \<and>
   get_attribute example_backend ''locked'' = Inl (Getter_not_found ''locked'') \<and>
   get_attribute_as_string example_env example_backend ''locked'' = Inl (Getter_not_found ''locked'') \<and>
   get_attribute_as_string example_env example_backend ''sr'' = Inl (Params_not_found ''sr'') \<and>
   item_int example_env (IntTensor [7]) 0 = Some 7 \<and>
   isl (get_attribute_as_string example_env example_backend ''mode'')"
proof -
  let ?read = "example_backend\<lparr>m_model := gain_set_module\<lparr>invoked := [''get_gain'', ''get_gain'', ''set_gain'']\<rparr>\<rparr>"
  have schema: "attr (m_model ?read) (''gain'' @ ''_params'') = Some (ITensor (IntTensor [0, 1, 2, 3]))"
    by (simp add: gain_set_module_def attr_def)
  have len: "size0 (IntTensor [0, 1, 2, 3] :: int tensor) \<le> length gain_values"
    by (simp add: size0_def gain_values_def)
  from get_attribute_as_string_format [where env = example_env
      and b = "example_backend\<lparr>m_model := gain_set_module\<rparr>" and name = "''gain''"
      and outs = gain_values and ?b1.0 = ?read and t = "IntTensor [0, 1, 2, 3]"
      and strs = "[''true'', ''3'', ''1.500000'', ''hello'']"]
    example_get_gain schema len example_gain_fields
  have a: "get_attribute_as_string example_env (example_backend\<lparr>m_model := gain_set_module\<rparr>) ''gain'' =
     Inr (''true 3 1.500000 hello'', ?read)"
    by simp
  from get_attribute_as_string_format [where env = example_env and b = example_backend
      and name = "''locked''" and e = "Getter_not_found ''locked''"] example_get_locked
  have b: "get_attribute_as_string example_env example_backend ''locked'' = Inl (Getter_not_found ''locked'')"
    by simp
  have no_schema: "\<nexists>t. attr (m_model (example_backend\<lparr>m_model := (m_model example_backend)\<lparr>invoked := [''get_sr'', ''get_sr'', ''get_sr'']\<rparr>\<rparr>))
      (''sr'' @ ''_params'') = Some (ITensor t)"
    by (simp add: example_defs attr_def)
  from get_attribute_as_string_format [where env = example_env and b = example_backend
      and name = "''sr''" and outs = "[IInt 44100]"
      and ?b1.0 = "example_backend\<lparr>m_model := (m_model example_backend)\<lparr>invoked := [''get_sr'', ''get_sr'', ''get_sr'']\<rparr>\<rparr>"]
    example_get_sr no_schema
  have c: "get_attribute_as_string example_env example_backend ''sr'' = Inl (Params_not_found ''sr'')"
    by blast
  have mode_schema: "attr (m_model (example_backend\<lparr>m_model := (m_model example_backend)\<lparr>invoked := [''get_mode'', ''get_mode'', ''get_mode'']\<rparr>\<rparr>))
      (''mode'' @ ''_params'') = Some (ITensor (IntTensor [7]))"
    by (simp add: example_defs attr_def)
  have tag: "item_int example_env (IntTensor [7]) 0 = Some 7"
    by (simp add: eval_defs)
  from get_attribute_as_string_format [where env = example_env and b = example_backend
      and name = "''mode''" and outs = "[IInt 1]"
      and ?b1.0 = "example_backend\<lparr>m_model := (m_model example_backend)\<lparr>invoked := [''get_mode'', ''get_mode'', ''get_mode'']\<rparr>\<rparr>"
      and t = "IntTensor [7]" and i = 0 and tag = 7]
    example_get_mode mode_schema tag
  have d: "isl (get_attribute_as_string example_env example_backend ''mode'')"
    by (simp add: size0_def)
  from example_set_gain example_get_gain a example_get_locked b c tag d show ?thesis
    by (simp add: gain_values_def)
qed

section \<open>Properties of \<open>set_attribute\<close>\<close>

lemma setter_input_parse:
  assumes "i < length args"
  shows "setter_input env tag args i =
     (case parse_arg env tag (args ! i) of
        Some v \<Rightarrow> Inr v
      | None \<Rightarrow> Inl (if tag = 0 \<or> tag = 1 \<or> tag = 2 \<or> tag = 3 then Parse_error
                     else Bad_type_id tag i))"
  using assms by (simp add: setter_input_def parse_arg_def split: option.splits)

lemma setter_inputs_loop_typed:
  assumes "n = size0 t" and "n \<le> length args"
  shows "those (map (typed_input env t args) [k..<n]) = Some vs \<Longrightarrow>
           setter_inputs_loop env args t [k..<n] acc = Inr (acc @ vs)"
proof (induction "n - k" arbitrary: k acc vs)
  case 0
  then show ?case by simp
next
  case (Suc d)
  then have kn: "k < n" and d: "d = n - Suc k" by simp_all
  from kn have upt: "[k..<n] = k # [Suc k..<n]" by (rule upt_conv_Cons)
  from Suc.prems upt obtain v ws where
    v: "typed_input env t args k = Some v" and
    ws: "those (map (typed_input env t args) [Suc k..<n]) = Some ws" and
    vs: "vs = v # ws"
    by (auto split: option.splits)
  from v obtain tag where tag: "item_int env t k = Some tag"
    and pa: "parse_arg env tag (args ! k) = Some v"
    by (auto simp add: typed_input_def split: option.splits)
  from kn assms have "k < length args" by simp
  then have si: "setter_input env tag args k = Inr v"
    using pa by (simp add: setter_input_parse)
  have "setter_inputs_loop env args t [k..<n] acc =
        setter_inputs_loop env args t [Suc k..<n] (acc @ [v])"
    using upt tag si by simp
  also have "\<dots> = Inr ((acc @ [v]) @ ws)"
    by (rule Suc.hyps(1) [OF d ws])
  finally show ?case by (simp add: vs)
qed

lemma setter_inputs_loop_fails:
  assumes "n = size0 t" and "n \<le> length args"
  shows "those (map (typed_input env t args) [k..<n]) = None \<Longrightarrow>
           isl (setter_inputs_loop env args t [k..<n] acc)"
proof (induction "n - k" arbitrary: k acc)
  case 0
  then show ?case by simp
next
  case (Suc d)
  then have kn: "k < n" and d: "d = n - Suc k" by simp_all
  from kn have upt: "[k..<n] = k # [Suc k..<n]" by (rule upt_conv_Cons)
  from kn assms have len: "k < length args" by simp
  show ?case
  proof (cases "typed_input env t args k")
    case None
    then show ?thesis
      using upt len
      by (auto simp add: typed_input_def setter_input_parse split: option.splits)
  next
    case (Some v)
    with Suc.prems upt have rest: "those (map (typed_input env t args) [Suc k..<n]) = None"
      by (auto split: option.splits)
    from Some obtain tag where tag: "item_int env t k = Some tag"
      and pa: "parse_arg env tag (args ! k) = Some v"
      by (auto simp add: typed_input_def split: option.splits)
    have si: "setter_input env tag args k = Inr v"
      using pa len by (simp add: setter_input_parse)
    from Suc.hyps(1) [OF d rest] show ?thesis
      using upt tag si by simp
  qed
qed

lemma untyped_position:
  "those (map (typed_input env t args) [0..<size0 t]) = None \<longleftrightarrow>
     (\<exists>i < size0 t. item_int env t i = None \<or>
        (\<exists>tag. item_int env t i = Some tag \<and> parse_arg env tag (args ! i) = None))"
proof -
  have "those (map (typed_input env t args) [0..<size0 t]) = None \<longleftrightarrow>
        (\<exists>i < size0 t. typed_input env t args i = None)"
    by (auto simp add: those_None_iff image_iff) (metis atLeastLessThan_iff zero_le)+
  also have "\<dots> \<longleftrightarrow> (\<exists>i < size0 t. item_int env t i = None \<or>
        (\<exists>tag. item_int env t i = Some tag \<and> parse_arg env tag (args ! i) = None))"
    by (auto simp add: typed_input_def split: option.splits)
  finally show ?thesis .
qed

lemma set_attribute_result:
  assumes m: "get_method (m_model b) (''set_'' @ name) \<noteq> None"
    and a: "attr (m_model b) (name @ ''_params'') = Some (ITensor t)"
    and len: "length args = size0 t"
  shows "(those (map (typed_input env t args) [0..<size0 t]) = None \<longrightarrow>
            isl (set_attribute env b name args)) \<and>
         (those (map (typed_input env t args) [0..<size0 t]) = Some vs \<longrightarrow>
            set_attribute env b name args =
              (if returns_zero (fst (invoke (m_model b) (''set_'' @ name) vs))
               then Inr (b\<lparr>m_model := snd (invoke (m_model b) (''set_'' @ name) vs)\<rparr>)
               else Inl (Setter_failed name)))"
proof -
  from len have le: "size0 t \<le> length args" by simp
  have none: "isl (set_attribute env b name args)"
    if "those (map (typed_input env t args) [0..<size0 t]) = None"
    using setter_inputs_loop_fails [OF refl le that, where acc = "[]"] m a
    by (auto simp add: set_attribute_def split: sum.splits)
  have some: "set_attribute env b name args =
              (if returns_zero (fst (invoke (m_model b) (''set_'' @ name) vs))
               then Inr (b\<lparr>m_model := snd (invoke (m_model b) (''set_'' @ name) vs)\<rparr>)
               else Inl (Setter_failed name))"
    if "those (map (typed_input env t args) [0..<size0 t]) = Some vs"
    using setter_inputs_loop_typed [OF refl le that, where acc = "[]"] m a
    by (auto simp add: set_attribute_def returns_zero_def
             split: prod.splits option.splits ivalue.splits)
  from none some show ?thesis by blast
qed

text \<open>
  C8 (amended). When the number of arguments is the length of the schema, \<open>set_attribute\<close>
  throws if and only if the method \<open>set_<name>\<close> does not exist, or there is no
  \<open>_params\<close> tensor of the name, or at some position the tag cannot be read or the
  argument does not parse by it (a tag that is none of the four parses nothing), or the
  setter, called on the parsed arguments, throws or returns something other than an integer
  that is 0 as \<open>int\<close>. When it does not throw, the setter was called with each argument
  parsed by the tag of its position, and the backend holds the module the call left.
\<close>

theorem set_attribute_raises_iff:
  "(\<forall>t. attr (m_model b) (name @ ''_params'') = Some (ITensor t) \<longrightarrow> length args = size0 t) \<longrightarrow>
   (isl (set_attribute env b name args) \<longleftrightarrow>
      get_method (m_model b) (''set_'' @ name) = None \<or>
      (\<nexists>t. attr (m_model b) (name @ ''_params'') = Some (ITensor t)) \<or>
      (\<exists>t. attr (m_model b) (name @ ''_params'') = Some (ITensor t) \<and>
         ((\<exists>i < size0 t. item_int env t i = None \<or>
             (\<exists>tag. item_int env t i = Some tag \<and> parse_arg env tag (args ! i) = None)) \<or>
          (\<exists>vs. those (map (typed_input env t args) [0..<size0 t]) = Some vs \<and>
             \<not> returns_zero (fst (invoke (m_model b) (''set_'' @ name) vs)))))) \<and>
   (\<forall>b'. set_attribute env b name args = Inr b' \<longrightarrow>
      (\<exists>t vs. attr (m_model b) (name @ ''_params'') = Some (ITensor t) \<and>
         those (map (typed_input env t args) [0..<size0 t]) = Some vs \<and>
         b' = b\<lparr>m_model := snd (invoke (m_model b) (''set_'' @ name) vs)\<rparr>))"
proof
  assume pre: "\<forall>t. attr (m_model b) (name @ ''_params'') = Some (ITensor t) \<longrightarrow> length args = size0 t"
  show "(isl (set_attribute env b name args) \<longleftrightarrow>
      get_method (m_model b) (''set_'' @ name) = None \<or>
      (\<nexists>t. attr (m_model b) (name @ ''_params'') = Some (ITensor t)) \<or>
      (\<exists>t. attr (m_model b) (name @ ''_params'') = Some (ITensor t) \<and>
         ((\<exists>i < size0 t. item_int env t i = None \<or>
             (\<exists>tag. item_int env t i = Some tag \<and> parse_arg env tag (args ! i) = None)) \<or>
          (\<exists>vs. those (map (typed_input env t args) [0..<size0 t]) = Some vs \<and>
             \<not> returns_zero (fst (invoke (m_model b) (''set_'' @ name) vs)))))) \<and>
   (\<forall>b'. set_attribute env b name args = Inr b' \<longrightarrow>
      (\<exists>t vs. attr (m_model b) (name @ ''_params'') = Some (ITensor t) \<and>
         those (map (typed_input env t args) [0..<size0 t]) = Some vs \<and>
         b' = b\<lparr>m_model := snd (invoke (m_model b) (''set_'' @ name) vs)\<rparr>))"
  proof (cases "get_method (m_model b) (''set_'' @ name) = None")
    case True
    then show ?thesis by (simp add: set_attribute_def)
  next
    case m: False
    show ?thesis
    proof (cases "\<exists>t. attr (m_model b) (name @ ''_params'') = Some (ITensor t)")
      case False
      with m have "set_attribute env b name args = Inl (Params_not_found name)"
        by (auto simp add: set_attribute_def split: option.splits ivalue.splits)
      with False show ?thesis by simp
    next
      case True
      then obtain t where a: "attr (m_model b) (name @ ''_params'') = Some (ITensor t)" by blast
      with pre have len: "length args = size0 t" by simp
      show ?thesis
      proof (cases "those (map (typed_input env t args) [0..<size0 t])")
        case None
        with set_attribute_result [OF m a len, of env]
        have "isl (set_attribute env b name args)" by simp
        moreover from None have "\<exists>i < size0 t. item_int env t i = None \<or>
             (\<exists>tag. item_int env t i = Some tag \<and> parse_arg env tag (args ! i) = None)"
          by (simp only: untyped_position)
        ultimately show ?thesis using a by (auto simp add: isl_def)
      next
        case (Some vs)
        with set_attribute_result [OF m a len, of env vs]
        have res: "set_attribute env b name args =
              (if returns_zero (fst (invoke (m_model b) (''set_'' @ name) vs))
               then Inr (b\<lparr>m_model := snd (invoke (m_model b) (''set_'' @ name) vs)\<rparr>)
               else Inl (Setter_failed name))" by simp
        from Some have typed: "\<not> (\<exists>i < size0 t. item_int env t i = None \<or>
             (\<exists>tag. item_int env t i = Some tag \<and> parse_arg env tag (args ! i) = None))"
          using untyped_position [of env t args] by simp
        show ?thesis
          using m a Some res typed by (auto simp add: isl_def)
      qed
    qed
  qed
qed

text \<open>
  The theorem on the example: setting \<open>gain\<close> does not throw, the arguments are parsed by
  their tags and the setter returns 0.
\<close>

theorem set_attribute_raises_iff_witness:
  "attr (m_model example_backend) (''gain'' @ ''_params'') = Some (ITensor (IntTensor [0, 1, 2, 3])) \<and>
   length [''true'', ''3'', ''1.5'', ''hello''] = size0 (IntTensor [0, 1, 2, 3] :: int tensor) \<and>
   \<not> isl (set_attribute example_env example_backend ''gain'' [''true'', ''3'', ''1.5'', ''hello'']) \<and>
   those (map (typed_input example_env (IntTensor [0, 1, 2, 3]) [''true'', ''3'', ''1.5'', ''hello''])
            [0..<size0 (IntTensor [0, 1, 2, 3] :: int tensor)]) =
     Some [IBool True, IInt 3, IDouble 1500000, IString ''hello''] \<and>
   returns_zero (fst (invoke (m_model example_backend) (''set_'' @ ''gain'')
     [IBool True, IInt 3, IDouble 1500000, IString ''hello'']))"
proof -
  let ?args = "[''true'', ''3'', ''1.5'', ''hello'']"
  have schema: "attr (m_model example_backend) (''gain'' @ ''_params'') = Some (ITensor (IntTensor [0, 1, 2, 3]))"
    by (simp add: example_defs attr_def)
  have len: "length ?args = size0 (IntTensor [0, 1, 2, 3] :: int tensor)"
    by (simp add: size0_def)
  have ok: "\<not> isl (set_attribute example_env example_backend ''gain'' ?args)"
    by (simp add: example_set_gain)
  have typed: "those (map (typed_input example_env (IntTensor [0, 1, 2, 3]) ?args)
            [0..<size0 (IntTensor [0, 1, 2, 3] :: int tensor)]) =
     Some [IBool True, IInt 3, IDouble 1500000, IString ''hello'']"
    by (simp add: typed_input_def parse_arg_def example_defs eval_defs)
  have pre: "\<forall>t. attr (m_model example_backend) (''gain'' @ ''_params'') = Some (ITensor t) \<longrightarrow>
      length ?args = size0 t"
    using schema len by simp
  from set_attribute_raises_iff [where env = example_env and b = example_backend
      and name = "''gain''" and args = ?args] pre ok schema typed
  have "returns_zero (fst (invoke (m_model example_backend) (''set_'' @ ''gain'')
     [IBool True, IInt 3, IDouble 1500000, IString ''hello'']))"
    by auto
  with schema len ok typed show ?thesis by simp
qed

text \<open>
  As the claim is written (it throws only when the setter or the schema is missing, a tag
  is unknown, or the setter returns a nonzero code) it fails: \<open>set_locked\<close> exists, the
  schema \<open>[3]\<close> exists and its tag is the string tag, the setter returns no code at all
  because it throws, and \<open>set_attribute\<close> throws.
\<close>

theorem set_attribute_setter_raises_counterexample:
  "get_method (m_model example_backend) ''set_locked'' = Some raising_method \<and>
   attr (m_model example_backend) ''locked_params'' = Some (ITensor (IntTensor [3])) \<and>
   item_int example_env (IntTensor [3]) 0 = Some 3 \<and>
   length [''x''] = size0 (IntTensor [3] :: int tensor) \<and>
   fst (invoke (m_model example_backend) ''set_locked'' [IString ''x'']) = None \<and>
   set_attribute example_env example_backend ''locked'' [''x''] = Inl (Setter_failed ''locked'')"
  by (simp add: set_attribute_def setter_input_def example_defs eval_defs)

end
